theory Spec2Isabelle
  imports Complex_Main "HOL-Library.AList"
begin

section \<open>Python values\<close>

text \<open>
  The program is Python. Its data comes out of \<^verbatim>\<open>json.loads\<close> and
  \<^verbatim>\<open>json.load\<close>, so a value is one of None, a bool, an int, a float, a str, a
  list or a dict with str keys. A str is a list of characters, one per code point; the
  development covers ASCII text, where \<^verbatim>\<open>str.upper\<close> maps a-z to A-Z and
  leaves every other character alone. A float is a finite number, an infinity or NaN (the
  decoder accepts \<^verbatim>\<open>NaN\<close> and \<^verbatim>\<open>Infinity\<close>); a finite double is
  the rational number it denotes. A dict is its list of items in insertion order, read with
  \<open>map_of\<close> and written with \<open>AList.update\<close>, which replaces the value of a key
  in place and appends a new key, as a Python dict does.
\<close>

datatype pyfloat = Fin rat | PosInf | NegInf | NaN

datatype json =
    JNull
  | JBool bool
  | JInt int
  | JFloat pyfloat
  | JStr string
  | JArr "json list"
  | JObj "(string \<times> json) list"

text \<open>
  The exceptions the modelled code can meet. All of them are subclasses of
  \<^verbatim>\<open>Exception\<close>. \<open>APIError\<close> is \<^verbatim>\<open>anthropic.APIError\<close> with its
  subclasses (authentication, rate limit, connection); \<open>OtherException\<close> is any other
  \<^verbatim>\<open>Exception\<close> a collaborator raises.
\<close>

datatype exn =
    KeyError string
  | IndexError
  | AttributeError
  | TypeError
  | ValueError
  | OverflowError
  | UnicodeDecodeError
  | JSONDecodeError
  | APIError string
  | OtherException string

text \<open>A computation that raises is \<open>Inl\<close> of the exception; \<open>ebind\<close> sequences two.\<close>

definition ebind :: "exn + 'a \<Rightarrow> ('a \<Rightarrow> exn + 'b) \<Rightarrow> exn + 'b" where
  "ebind m f = (case m of Inl e \<Rightarrow> Inl e | Inr v \<Rightarrow> f v)"

text \<open>Truth value of a decoded value (\<^verbatim>\<open>not x\<close>, \<^verbatim>\<open>if x\<close>).\<close>

fun truthy :: "json \<Rightarrow> bool" where
  "truthy JNull = False"
| "truthy (JBool b) = b"
| "truthy (JInt i) = (i \<noteq> 0)"
| "truthy (JFloat f) = (f \<noteq> Fin 0)"
| "truthy (JStr s) = (s \<noteq> [])"
| "truthy (JArr xs) = (xs \<noteq> [])"
| "truthy (JObj kvs) = (kvs \<noteq> [])"

text \<open>
  \<^verbatim>\<open>d.get(key, default)\<close>: only a dict has the method, so on any other value
  the attribute lookup raises AttributeError.
\<close>

definition dict_get :: "(string \<times> json) list \<Rightarrow> string \<Rightarrow> json \<Rightarrow> json" where
  "dict_get kvs key dflt = (case map_of kvs key of None \<Rightarrow> dflt | Some v \<Rightarrow> v)"

definition py_get :: "json \<Rightarrow> string \<Rightarrow> json \<Rightarrow> exn + json" where
  "py_get d key dflt =
     (case d of JObj kvs \<Rightarrow> Inr (dict_get kvs key dflt) | _ \<Rightarrow> Inl AttributeError)"

definition upper_char :: "char \<Rightarrow> char" where
  "upper_char c =
     (case map_of (zip ''abcdefghijklmnopqrstuvwxyz'' ''ABCDEFGHIJKLMNOPQRSTUVWXYZ'') c of
        None \<Rightarrow> c
      | Some u \<Rightarrow> u)"

definition upper :: "string \<Rightarrow> string" where
  "upper s = map upper_char s"

text \<open>\<^verbatim>\<open>x.upper()\<close>: only a str has the method.\<close>

definition py_upper :: "json \<Rightarrow> exn + string" where
  "py_upper v = (case v of JStr s \<Rightarrow> Inr (upper s) | _ \<Rightarrow> Inl AttributeError)"

text \<open>
  The library functions whose results the program only passes on are parameters of the
  model: the JSON decoder (\<open>Inl JSONDecodeError\<close> when the text is not JSON), the search
  for a fenced JSON object with the regular expression of \<^verbatim>\<open>parse_message\<close>
  (group 1 of the first match), the parser behind \<^verbatim>\<open>float(str)\<close> (None when it
  raises ValueError), the rounding of an int beyond \<open>2^53\<close> to a double (None when
  it raises OverflowError) and the rounded sum of a float and an int.
\<close>

record libs =
  json_loads :: "string \<Rightarrow> exn + json"
  re_search_fence :: "string \<Rightarrow> string option"
  float_of_str :: "string \<Rightarrow> pyfloat option"
  float_of_big_int :: "int \<Rightarrow> pyfloat option"
  float_add_int :: "pyfloat \<Rightarrow> int \<Rightarrow> pyfloat"

text \<open>\<^verbatim>\<open>float(x)\<close> on a decoded value.\<close>

definition py_float :: "libs \<Rightarrow> json \<Rightarrow> exn + pyfloat" where
  "py_float L v =
     (case v of
        JFloat f \<Rightarrow> Inr f
      | JInt i \<Rightarrow>
          (if \<bar>i\<bar> \<le> 2 ^ 53 then Inr (Fin (of_int i))
           else (case float_of_big_int L i of None \<Rightarrow> Inl OverflowError | Some f \<Rightarrow> Inr f))
      | JBool b \<Rightarrow> Inr (Fin (if b then 1 else 0))
      | JStr s \<Rightarrow> (case float_of_str L s of None \<Rightarrow> Inl ValueError | Some f \<Rightarrow> Inr f)
      | _ \<Rightarrow> Inl TypeError)"

section \<open>signal\_parser.py\<close>

text \<open>
  The dataclass \<^verbatim>\<open>ParsedSignal\<close>. The annotations of the source are not
  enforced: \<open>politician_name\<close>, \<open>amount_range\<close> and \<open>signal_date\<close> hold whatever
  value the payload carries.
\<close>

record ParsedSignal =
  ticker :: string
  politician_name :: json
  transaction_type :: string
  amount_range :: json
  signal_date :: json
  confidence :: pyfloat
  raw_message :: string

text \<open>
  Lines 96-123 of \<^verbatim>\<open>parse_message\<close>: from the decoded payload \<open>data\<close> to the
  record, \<open>Inr None\<close> for each \<^verbatim>\<open>return None\<close> and \<open>Inl\<close> for an exception
  raised on the way (caught by the handlers of lines 125-130).
\<close>

definition parse_message_validate ::
  "libs \<Rightarrow> json \<Rightarrow> string \<Rightarrow> string \<Rightarrow> exn + ParsedSignal option" where
  "parse_message_validate L data message_text timestamp =
     ebind (py_get data ''is_signal'' JNull) (\<lambda>is_signal.
     if is_signal = JBool False then Inr None
     else ebind (py_get data ''ticker'' JNull) (\<lambda>tick.
     if \<not> truthy tick then Inr None
     else ebind (py_get data ''transaction_type'' (JStr [])) (\<lambda>tt.
     ebind (py_upper tt) (\<lambda>ttype.
     if ttype \<noteq> ''BUY'' \<and> ttype \<noteq> ''SELL'' then Inr None
     else ebind (py_get data ''signal_date'' JNull) (\<lambda>sd.
     let sdate = (if \<not> truthy sd then JStr (take 10 timestamp) else sd) in
     ebind (py_upper tick) (\<lambda>tick_up.
     ebind (py_get data ''politician_name'' JNull) (\<lambda>pname.
     ebind (py_get data ''amount_range'' JNull) (\<lambda>arange.
     ebind (py_get data ''confidence'' (JFloat (Fin (1 / 2)))) (\<lambda>conf.
     ebind (py_float L conf) (\<lambda>conf_float.
     Inr (Some \<lparr>ticker = tick_up, politician_name = pname, transaction_type = ttype,
                amount_range = arange, signal_date = sdate, confidence = conf_float,
                raw_message = take 500 message_text\<rparr>)))))))))))"

text \<open>
  \<^verbatim>\<open>str.format\<close> called with keyword arguments only, as CPython's formatter scans
  the template: \<^verbatim>\<open>{{\<close> and \<^verbatim>\<open>}}\<close> are literal braces, a single
  \<^verbatim>\<open>}\<close> or an unfinished field is a ValueError, and a field
  \<^verbatim>\<open>{name}\<close> or \<^verbatim>\<open>{name:spec}\<close> is replaced by the argument of
  that name: KeyError when there is none, IndexError when the name is empty or a number
  (there are no positional arguments). The name is everything up to the first
  \<^verbatim>\<open>:\<close> or \<^verbatim>\<open>}\<close>, quotes and blanks included. Conversions,
  attribute and index access, nested fields and a spec on a bound name do not occur in the
  template below and are outside the model.
\<close>

datatype field = Field (field_name: string) (format_spec: string) (field_rest: string)

definition is_digit :: "char \<Rightarrow> bool" where
  "is_digit c = (48 \<le> (of_char c :: nat) \<and> (of_char c :: nat) \<le> 57)"

definition in_field_name :: "char \<Rightarrow> bool" where
  "in_field_name x = (x \<notin> set ''}:!{[.'')"

definition in_format_spec :: "char \<Rightarrow> bool" where
  "in_format_spec y = (y \<notin> set ''{}'')"

definition parse_field :: "string \<Rightarrow> exn + field" where
  "parse_field cs =
     (case dropWhile in_field_name cs of
        [] \<Rightarrow> Inl ValueError
      | x # r \<Rightarrow>
          if x = CHR ''{'' then Inl ValueError
          else if x = CHR ''!'' \<or> x = CHR ''['' \<or> x = CHR ''.''
            then Inl (OtherException ''format field outside the model'')
          else if x = CHR ''}'' then Inr (Field (takeWhile in_field_name cs) [] r)
          else
            (case dropWhile in_format_spec r of
               [] \<Rightarrow> Inl ValueError
             | y # r' \<Rightarrow>
                 if y = CHR ''{'' then Inl (OtherException ''format field outside the model'')
                 else Inr (Field (takeWhile in_field_name cs) (takeWhile in_format_spec r) r')))"

lemma dropWhile_shorter: "dropWhile P xs = y # ys \<Longrightarrow> length ys < length xs"
proof -
  assume a: "dropWhile P xs = y # ys"
  have "length (dropWhile P xs) \<le> length xs"
    by (rule length_dropWhile_le)
  with a show ?thesis by simp
qed

lemma parse_field_shorter:
  assumes "parse_field cs = Inr f"
  shows "length (field_rest f) < length cs"
proof (cases "dropWhile in_field_name cs")
  case Nil
  with assms show ?thesis by (simp add: parse_field_def)
next
  case (Cons x r)
  then have r: "length r < length cs"
    by (rule dropWhile_shorter)
  show ?thesis
  proof (cases "dropWhile in_format_spec r")
    case Nil
    with assms [unfolded parse_field_def Cons] have "field_rest f = r"
      by (simp only: list.case split: if_splits) auto
    with r show ?thesis by simp
  next
    case c: (Cons y r')
    then have "length r' < length r"
      by (rule dropWhile_shorter)
    moreover from assms [unfolded parse_field_def Cons] c
    have "field_rest f = r \<or> field_rest f = r'"
      by (simp only: list.case split: if_splits) auto
    ultimately show ?thesis using r by auto
  qed
qed

function py_format :: "(string \<times> string) list \<Rightarrow> string \<Rightarrow> exn + string" where
  "py_format kwargs [] = Inr []"
| "py_format kwargs (c # cs) =
     (if c = CHR ''{'' then
        (case cs of
           [] \<Rightarrow> Inl ValueError
         | d # ds \<Rightarrow>
             if d = CHR ''{'' then ebind (py_format kwargs ds) (\<lambda>out. Inr (c # out))
             else
               (case parse_field cs of
                  Inl e \<Rightarrow> Inl e
                | Inr f \<Rightarrow>
                    if field_name f = [] \<or> list_all is_digit (field_name f) then Inl IndexError
                    else
                      (case map_of kwargs (field_name f) of
                         None \<Rightarrow> Inl (KeyError (field_name f))
                       | Some v \<Rightarrow>
                           if format_spec f \<noteq> []
                             then Inl (OtherException ''format spec outside the model'')
                           else ebind (py_format kwargs (field_rest f)) (\<lambda>out. Inr (v @ out)))))
      else if c = CHR ''}'' then
        (case cs of
           [] \<Rightarrow> Inl ValueError
         | d # ds \<Rightarrow>
             if d = CHR ''}'' then ebind (py_format kwargs ds) (\<lambda>out. Inr (c # out))
             else Inl ValueError)
      else ebind (py_format kwargs cs) (\<lambda>out. Inr (c # out)))"
  by pat_completeness auto
termination
  by (relation "measure (\<lambda>(kwargs, s). length s)") (auto dest: parse_field_shorter)

text \<open>The template of signal\_parser.py, lines 30-52, character for character.\<close>

definition PARSE_PROMPT :: string where
  "PARSE_PROMPT =
     ''You are parsing politician stock trading signals from a Telegram channel.\<newline>'' @
     ''\<newline>'' @
     ''Extract the following from this message:\<newline>'' @
     ''- ticker: Stock symbol (e.g., NVDA, AAPL, MSFT). Must be uppercase.\<newline>'' @
     ''- politician_name: Full name of the politician (e.g., \"Nancy Pelosi\", \"Dan Crenshaw\")\<newline>'' @
     ''- transaction_type: \"BUY\" for purchases, \"SELL\" for sales\<newline>'' @
     ''- amount_range: Dollar range if mentioned (e.g., \"$1K-$15K\", \"$50K-$100K\", \"$1M-$5M\")\<newline>'' @
     ''- signal_date: Date of the transaction in ISO format (YYYY-MM-DD)\<newline>'' @
     ''- confidence: Your confidence in this extraction from 0.0 to 1.0\<newline>'' @
     ''\<newline>'' @
     ''IMPORTANT RULES:\<newline>'' @
     ''1. If this is NOT a politician trading signal (e.g., general news, commentary), return: {\"is_signal\": false}\<newline>'' @
     ''2. If you cannot confidently extract the ticker, return: {\"is_signal\": false}\<newline>'' @
     ''3. For transaction_type, \"purchased\", \"bought\", \"acquired\" = \"BUY\"; \"sold\", \"sold off\", \"disposed\" = \"SELL\"\<newline>'' @
     ''4. If signal_date is not explicitly mentioned, use the message timestamp date\<newline>'' @
     ''5. Return ONLY valid JSON, no explanation or markdown\<newline>'' @
     ''\<newline>'' @
     ''Message:\<newline>'' @
     ''{message}\<newline>'' @
     ''\<newline>'' @
     ''Message timestamp: {timestamp}\<newline>'' @
     ''\<newline>'' @
     ''Return JSON:''"

text \<open>Line 76: \<^verbatim>\<open>PARSE_PROMPT.format(message=message_text, timestamp=timestamp)\<close>.\<close>

definition format_prompt :: "string \<Rightarrow> string \<Rightarrow> exn + string" where
  "format_prompt message_text timestamp =
     py_format [(''message'', message_text), (''timestamp'', timestamp)] PARSE_PROMPT"

text \<open>
  \<^verbatim>\<open>str.strip()\<close> removes the white space at both ends. Among the first 256
  code points \<^verbatim>\<open>str.isspace\<close> holds for 9-13, 28-32, 133 (next line) and 160
  (no-break space).
\<close>

definition is_space :: "char \<Rightarrow> bool" where
  "is_space c =
     (let n = (of_char c :: nat)
      in (9 \<le> n \<and> n \<le> 13) \<or> (28 \<le> n \<and> n \<le> 32) \<or> n = 133 \<or> n = 160)"

definition strip :: "string \<Rightarrow> string" where
  "strip s = rev (dropWhile is_space (rev (dropWhile is_space s)))"

text \<open>
  The reply of \<^verbatim>\<open>client.messages.create\<close> is the list
  \<^verbatim>\<open>response.content\<close> of its blocks; only a text block has the attribute
  \<^verbatim>\<open>text\<close>. The client itself is a function from the prompt to the reply, or to
  the exception the call raises.
\<close>

datatype content_block = TextBlock string | OtherBlock

type_synonym anthropic_client = "string \<Rightarrow> exn + content_block list"

text \<open>
  Lines 81-94: the text of the first block, stripped, is decoded as it is; when that raises
  JSONDecodeError, the fenced object is searched and decoded (an exception of this second
  decoding is raised inside the handler and leaves it), and \<open>Inr None\<close> is the
  \<^verbatim>\<open>return None\<close> of line 94.
\<close>

definition parse_message_decode :: "libs \<Rightarrow> content_block list \<Rightarrow> exn + json option" where
  "parse_message_decode L content =
     (case content of
        [] \<Rightarrow> Inl IndexError
      | OtherBlock # _ \<Rightarrow> Inl AttributeError
      | TextBlock t # _ \<Rightarrow>
          (let response_text = strip t in
           case json_loads L response_text of
             Inr data \<Rightarrow> Inr (Some data)
           | Inl JSONDecodeError \<Rightarrow>
               (case re_search_fence L response_text of
                  Some group1 \<Rightarrow> ebind (json_loads L group1) (\<lambda>data. Inr (Some data))
                | None \<Rightarrow> Inr None)
           | Inl e \<Rightarrow> Inl e))"

text \<open>
  Lines 70-123, from the finished prompt on: the request, the decoding and the validation.
\<close>

definition parse_message_call ::
  "anthropic_client \<Rightarrow> libs \<Rightarrow> string \<Rightarrow> string \<Rightarrow> string \<Rightarrow> exn + ParsedSignal option" where
  "parse_message_call client L prompt message_text timestamp =
     ebind (client prompt) (\<lambda>content.
     ebind (parse_message_decode L content) (\<lambda>decoded.
       case decoded of
         None \<Rightarrow> Inr None
       | Some data \<Rightarrow> parse_message_validate L data message_text timestamp))"

text \<open>
  The body of the \<^verbatim>\<open>try\<close> of \<^verbatim>\<open>parse_message\<close>: the prompt is
  formatted first, as an argument of the request.
\<close>

definition parse_message_try ::
  "anthropic_client \<Rightarrow> libs \<Rightarrow> string \<Rightarrow> string \<Rightarrow> exn + ParsedSignal option" where
  "parse_message_try client L message_text timestamp =
     ebind (format_prompt message_text timestamp) (\<lambda>prompt.
       parse_message_call client L prompt message_text timestamp)"

text \<open>
  Lines 125-130: both handlers print and return None, and the second one takes every
  \<^verbatim>\<open>Exception\<close>.
\<close>

definition except_return_None :: "exn + 'a option \<Rightarrow> 'a option" where
  "except_return_None body = (case body of Inl e \<Rightarrow> None | Inr r \<Rightarrow> r)"

definition parse_message ::
  "anthropic_client \<Rightarrow> libs \<Rightarrow> string \<Rightarrow> string \<Rightarrow> ParsedSignal option" where
  "parse_message client L message_text timestamp =
     except_return_None (parse_message_try client L message_text timestamp)"

text \<open>The range test \<^verbatim>\<open>0.0 <= confidence <= 1.0\<close>; a comparison with NaN is false.\<close>

definition in_unit_interval :: "pyfloat \<Rightarrow> bool" where
  "in_unit_interval c = (case c of Fin q \<Rightarrow> 0 \<le> q \<and> q \<le> 1 | _ \<Rightarrow> False)"

section \<open>state.py\<close>

text \<open>
  The state file as \<^verbatim>\<open>load_state\<close> meets it: missing; not openable or readable
  (IOError); text that is not JSON (JSONDecodeError); a file on which
  \<^verbatim>\<open>json.load\<close> raises an exception that is neither of the two caught
  (UnicodeDecodeError for bytes that are not UTF-8, a plain ValueError for an integer
  literal beyond the digit limit of the interpreter, RecursionError for deep nesting); or
  the value it decodes to. \<open>writable\<close> says whether
  \<^verbatim>\<open>open(STATE_FILE, "w")\<close> succeeds; when it raises IOError,
  \<^verbatim>\<open>save_state\<close> prints and the file stays as it is.
\<close>

datatype state_file = Missing | Unreadable | NotJson | LoadRaises exn | Holds json

record store =
  content :: state_file
  writable :: bool

definition load_state :: "store \<Rightarrow> exn + json" where
  "load_state st =
     (case content st of
        Missing \<Rightarrow> Inr (JObj [])
      | Holds v \<Rightarrow> Inr v
      | NotJson \<Rightarrow> Inr (JObj [])
      | Unreadable \<Rightarrow> Inr (JObj [])
      | LoadRaises e \<Rightarrow> Inl e)"

definition save_state :: "store \<Rightarrow> json \<Rightarrow> store" where
  "save_state st state = (if writable st then st\<lparr>content := Holds state\<rparr> else st)"

text \<open>\<^verbatim>\<open>str(channel_id)\<close>: the decimal digits, with a minus sign below zero.\<close>

fun digits :: "nat \<Rightarrow> string" where
  "digits n =
     (if n < 10 then [''0123456789'' ! n]
      else digits (n div 10) @ [''0123456789'' ! (n mod 10)])"

declare digits.simps [simp del]

definition py_str :: "int \<Rightarrow> string" where
  "py_str i = (if i < 0 then CHR ''-'' # digits (nat (- i)) else digits (nat i))"

definition get_last_message_id :: "store \<Rightarrow> int \<Rightarrow> exn + json" where
  "get_last_message_id st channel_id =
     ebind (load_state st) (\<lambda>state.
     ebind (py_get state ''channels'' (JObj [])) (\<lambda>channels.
     ebind (py_get channels (py_str channel_id) (JObj [])) (\<lambda>entry.
     py_get entry ''last_message_id'' (JInt 0))))"

text \<open>
  \<^verbatim>\<open>set_last_message_id\<close>. The two tests \<^verbatim>\<open>key not in d\<close> and the three
  item assignments need dicts: on a list or a str the test may pass, but the assignment or
  the indexing with a str key that follows raises TypeError, and on any other value the
  test itself does. So each level is a dict or the call raises TypeError, before anything
  is saved. The id is stored as it is given; the annotation \<^verbatim>\<open>int\<close> is not
  enforced.
\<close>

definition set_last_message_id :: "store \<Rightarrow> int \<Rightarrow> json \<Rightarrow> exn + store" where
  "set_last_message_id st channel_id message_id =
     ebind (load_state st) (\<lambda>state.
     case state of
       JObj kvs \<Rightarrow>
         (case dict_get kvs ''channels'' (JObj []) of
            JObj channels \<Rightarrow>
              (case dict_get channels (py_str channel_id) (JObj []) of
                 JObj entry \<Rightarrow>
                   Inr (save_state st
                     (JObj (AList.update ''channels''
                        (JObj (AList.update (py_str channel_id)
                           (JObj (AList.update ''last_message_id'' message_id entry))
                           channels))
                        kvs)))
               | _ \<Rightarrow> Inl TypeError)
          | _ \<Rightarrow> Inl TypeError)
     | _ \<Rightarrow> Inl TypeError)"

text \<open>\<^verbatim>\<open>x + count\<close> for a decoded value \<open>x\<close> and an int.\<close>

definition py_add_int :: "libs \<Rightarrow> json \<Rightarrow> int \<Rightarrow> exn + json" where
  "py_add_int L x n =
     (case x of
        JInt i \<Rightarrow> Inr (JInt (i + n))
      | JBool b \<Rightarrow> Inr (JInt ((if b then 1 else 0) + n))
      | JFloat f \<Rightarrow> Inr (JFloat (float_add_int L f n))
      | _ \<Rightarrow> Inl TypeError)"

definition increment_processed_count :: "libs \<Rightarrow> store \<Rightarrow> int \<Rightarrow> exn + store" where
  "increment_processed_count L st n =
     ebind (load_state st) (\<lambda>state.
     ebind (py_get state ''total_processed'' (JInt 0)) (\<lambda>old.
     ebind (py_add_int L old n) (\<lambda>new.
     case state of
       JObj kvs \<Rightarrow> Inr (save_state st (JObj (AList.update ''total_processed'' new kvs)))
     | _ \<Rightarrow> Inl TypeError)))"

section \<open>webhook\_client.py\<close>

text \<open>
  What \<^verbatim>\<open>requests.post\<close> gives for the request number \<open>i\<close> of a batch: a
  RequestException with its text, or a response with its status code and its body. The
  body is empty, or decodes to a JSON value, or makes \<^verbatim>\<open>response.json()\<close>
  raise; that exception is \<^verbatim>\<open>requests.exceptions.JSONDecodeError\<close>, a
  RequestException (requests 2.27 and later), with its text.
\<close>

datatype http_body = NoContent | JsonBody json | UndecodableBody string

datatype post_outcome = RequestException string | Response int http_body

record WebhookClient =
  api_key :: string
  post :: "nat \<Rightarrow> json \<Rightarrow> post_outcome"

text \<open>
  The dict that \<^verbatim>\<open>send_signal\<close> returns has the keys status\_code and success,
  and then either response or error.
\<close>

datatype send_result =
    Answered (status_code: int) (succeeded: bool) (response: json)
  | Errored (status_code: int) (succeeded: bool) (error: string)

definition signal_payload :: "string \<Rightarrow> ParsedSignal \<Rightarrow> json" where
  "signal_payload key signal =
     JObj [(''api_key'', JStr key),
           (''ticker'', JStr (ticker signal)),
           (''politician_name'', politician_name signal),
           (''transaction_type'', JStr (transaction_type signal)),
           (''amount_range'', amount_range signal),
           (''signal_date'', signal_date signal),
           (''source'', JStr ''TELEGRAM''),
           (''raw_message'', JStr (raw_message signal))]"

definition send_signal :: "WebhookClient \<Rightarrow> nat \<Rightarrow> ParsedSignal \<Rightarrow> send_result" where
  "send_signal wc i signal =
     (case post wc i (signal_payload (api_key wc) signal) of
        Response code body \<Rightarrow>
          (case body of
             NoContent \<Rightarrow> Answered code (code = 200) (JObj [])
           | JsonBody v \<Rightarrow> Answered code (code = 200) v
           | UndecodableBody e \<Rightarrow> Errored 0 False e)
      | RequestException e \<Rightarrow> Errored 0 False e)"

text \<open>
  \<^verbatim>\<open>result.get("error") or result.get("response", {}).get("error", "Unknown error")\<close>:
  the second operand is evaluated when there is no error text or an empty one, and its
  \<^verbatim>\<open>get\<close> needs the response to be a dict.
\<close>

definition error_msg :: "send_result \<Rightarrow> exn + json" where
  "error_msg result =
     (case result of
        Errored _ _ e \<Rightarrow>
          if e \<noteq> [] then Inr (JStr e) else py_get (JObj []) ''error'' (JStr ''Unknown error'')
      | Answered _ _ r \<Rightarrow> py_get r ''error'' (JStr ''Unknown error''))"

record batch_results =
  total :: int
  success :: int
  failed :: int
  duplicates :: int
  errors :: "(string \<times> json) list"

text \<open>The loop of \<^verbatim>\<open>send_signals_batch\<close>, from the signal number \<open>i\<close> on.\<close>

fun send_signals_loop ::
  "WebhookClient \<Rightarrow> nat \<Rightarrow> ParsedSignal list \<Rightarrow> batch_results \<Rightarrow> exn + batch_results" where
  "send_signals_loop wc i [] results = Inr results"
| "send_signals_loop wc i (signal # signals) results =
     (let result = send_signal wc i signal in
      if succeeded result
        then send_signals_loop wc (Suc i) signals (results\<lparr>success := success results + 1\<rparr>)
      else if status_code result = 409
        then send_signals_loop wc (Suc i) signals (results\<lparr>duplicates := duplicates results + 1\<rparr>)
      else
        ebind (error_msg result) (\<lambda>msg.
          send_signals_loop wc (Suc i) signals
            (results\<lparr>failed := failed results + 1,
                     errors := errors results @ [(ticker signal, msg)]\<rparr>)))"

definition send_signals_batch :: "WebhookClient \<Rightarrow> ParsedSignal list \<Rightarrow> exn + batch_results" where
  "send_signals_batch wc signals =
     send_signals_loop wc 0 signals
       \<lparr>total = int (length signals), success = 0, failed = 0, duplicates = 0, errors = []\<rparr>"

section \<open>pipeline.py\<close>

text \<open>
  A message of the channel: its id, its text (None or a str) and
  \<^verbatim>\<open>message.date.isoformat()\<close>. \<^verbatim>\<open>get_entity\<close> returns the entity, raises
  ChannelPrivateError, or raises something else, which \<^verbatim>\<open>run_pipeline\<close> does not
  catch. \<^verbatim>\<open>iter_messages\<close> is the list of the messages it yields, in its order.
\<close>

record tg_message =
  msg_id :: int
  msg_text :: "string option"
  msg_date :: string

datatype entity_outcome = Entity | ChannelPrivateError | EntityRaises exn

text \<open>
  The order comparison \<^verbatim>\<open>a > b\<close> of two decoded values of which one is a number:
  bool, int and float compare by value (exactly, also between int and float; every
  comparison with NaN is false), and a number against None, a str, a list or a dict raises
  TypeError. Python also orders two strs and two lists; that does not occur in
  \<^verbatim>\<open>run_pipeline\<close>, where one side of the first comparison is a message id and
  every later one follows a comparison that succeeded.
\<close>

definition num_val :: "json \<Rightarrow> pyfloat option" where
  "num_val v =
     (case v of
        JInt i \<Rightarrow> Some (Fin (of_int i))
      | JBool b \<Rightarrow> Some (Fin (if b then 1 else 0))
      | JFloat f \<Rightarrow> Some f
      | _ \<Rightarrow> None)"

fun float_gt :: "pyfloat \<Rightarrow> pyfloat \<Rightarrow> bool" where
  "float_gt (Fin a) (Fin b) = (b < a)"
| "float_gt (Fin a) NegInf = True"
| "float_gt PosInf (Fin b) = True"
| "float_gt PosInf NegInf = True"
| "float_gt x y = False"

definition py_gt :: "json \<Rightarrow> json \<Rightarrow> exn + bool" where
  "py_gt a b =
     (case num_val a of
        None \<Rightarrow> Inl TypeError
      | Some x \<Rightarrow> (case num_val b of None \<Rightarrow> Inl TypeError | Some y \<Rightarrow> Inr (float_gt x y)))"

text \<open>\<^verbatim>\<open>max(a, b)\<close> keeps \<open>a\<close> unless \<^verbatim>\<open>b > a\<close>.\<close>

definition py_max :: "json \<Rightarrow> json \<Rightarrow> exn + json" where
  "py_max a b = ebind (py_gt b a) (\<lambda>greater. Inr (if greater then b else a))"

text \<open>
  Lines 101-113. \<^verbatim>\<open>if limit and count > limit\<close>: a limit of None or 0 is no limit.
  The running maximum starts as the starting id, whatever value that is, and
  \<^verbatim>\<open>max\<close> raises when it cannot be compared with a message id.
\<close>

fun collect_messages ::
  "int option \<Rightarrow> tg_message list \<Rightarrow> int \<Rightarrow> (int \<times> string \<times> string) list \<Rightarrow> json \<Rightarrow>
   exn + ((int \<times> string \<times> string) list \<times> json)" where
  "collect_messages limit [] count messages_to_parse max_message_id =
     Inr (messages_to_parse, max_message_id)"
| "collect_messages limit (message # rest) count messages_to_parse max_message_id =
     (case msg_text message of
        None \<Rightarrow> collect_messages limit rest count messages_to_parse max_message_id
      | Some text \<Rightarrow>
          if text = [] then collect_messages limit rest count messages_to_parse max_message_id
          else if (case limit of None \<Rightarrow> False | Some l \<Rightarrow> l \<noteq> 0 \<and> count + 1 > l)
            then Inr (messages_to_parse, max_message_id)
          else
            ebind (py_max max_message_id (JInt (msg_id message))) (\<lambda>new_max.
              collect_messages limit rest (count + 1)
                (messages_to_parse @ [(msg_id message, text, msg_date message)]) new_max))"

text \<open>
  Lines 134-141. \<open>parse i text timestamp\<close> is the result of the call number \<open>i\<close> of
  \<^verbatim>\<open>parse_message(anthropic_client, text, timestamp)\<close>, which returns a record or
  None and raises nothing.
\<close>

fun extract_signals ::
  "(nat \<Rightarrow> string \<Rightarrow> string \<Rightarrow> ParsedSignal option) \<Rightarrow> nat \<Rightarrow> (int \<times> string \<times> string) list \<Rightarrow>
   ParsedSignal list" where
  "extract_signals parse i [] = []"
| "extract_signals parse i ((mid, text, timestamp) # rest) =
     (case parse i text timestamp of
        Some signal \<Rightarrow> signal # extract_signals parse (Suc i) rest
      | None \<Rightarrow> extract_signals parse (Suc i) rest)"

record summary =
  total_messages :: int
  signals_found :: int
  signals_sent :: int
  duplicates_skipped :: int
  error_count :: int

datatype run_result = NoAccess | Summary summary

text \<open>Lines 157-174: the delivery step, with the store it leaves.\<close>

definition deliver ::
  "libs \<Rightarrow> WebhookClient option \<Rightarrow> bool \<Rightarrow> ParsedSignal list \<Rightarrow> summary \<Rightarrow> store \<Rightarrow>
   exn + (summary \<times> store)" where
  "deliver L webhook_client dry_run signals results st =
     (case webhook_client of
        Some wc \<Rightarrow>
          if signals \<noteq> [] \<and> \<not> dry_run then
            ebind (send_signals_batch wc signals) (\<lambda>webhook_results.
            ebind (increment_processed_count L st (success webhook_results)) (\<lambda>st'.
              Inr (results\<lparr>signals_sent := success webhook_results,
                           duplicates_skipped := duplicates webhook_results,
                           error_count := failed webhook_results\<rparr>, st')))
          else Inr (results, st)
      | None \<Rightarrow> Inr (results, st))"

text \<open>
  \<^verbatim>\<open>run_pipeline\<close>: the result or the exception that leaves it, and the store as the
  run leaves it. The starting id is whatever \<^verbatim>\<open>get_last_message_id\<close> returns;
  \<^verbatim>\<open>not full_scan and max_message_id > min_id\<close> compares only when the run is not a
  full scan. Printing is not modelled.
\<close>

definition run_pipeline ::
  "entity_outcome \<Rightarrow> tg_message list \<Rightarrow> (nat \<Rightarrow> string \<Rightarrow> string \<Rightarrow> ParsedSignal option) \<Rightarrow> libs \<Rightarrow>
   WebhookClient option \<Rightarrow> store \<Rightarrow> int \<Rightarrow> bool \<Rightarrow> bool \<Rightarrow> int option \<Rightarrow>
   (exn + run_result) \<times> store" where
  "run_pipeline entity messages parse L webhook_client st channel_id full_scan dry_run limit =
     (case (if full_scan then Inr (JInt 0) else get_last_message_id st channel_id) of
        Inl e \<Rightarrow> (Inl e, st)
      | Inr min_id \<Rightarrow>
          (case entity of
             ChannelPrivateError \<Rightarrow> (Inr NoAccess, st)
           | EntityRaises e \<Rightarrow> (Inl e, st)
           | Entity \<Rightarrow>
               (case collect_messages limit messages 0 [] min_id of
                  Inl e \<Rightarrow> (Inl e, st)
                | Inr (messages_to_parse, max_message_id) \<Rightarrow>
                    if messages_to_parse = [] then
                      (Inr (Summary \<lparr>total_messages = 0, signals_found = 0, signals_sent = 0,
                                      duplicates_skipped = 0, error_count = 0\<rparr>), st)
                    else
                      (let signals = extract_signals parse 0 messages_to_parse;
                           results = \<lparr>total_messages = int (length messages_to_parse),
                                      signals_found = int (length signals), signals_sent = 0,
                                      duplicates_skipped = 0, error_count = 0\<rparr>
                       in case deliver L webhook_client dry_run signals results st of
                            Inl e \<Rightarrow> (Inl e, st)
                          | Inr (results', st') \<Rightarrow>
                              (case (if full_scan then Inr False
                                     else py_gt max_message_id min_id) of
                                 Inl e \<Rightarrow> (Inl e, st')
                               | Inr True \<Rightarrow>
                                   (case set_last_message_id st' channel_id max_message_id of
                                      Inl e \<Rightarrow> (Inl e, st')
                                    | Inr st'' \<Rightarrow> (Inr (Summary results'), st''))
                               | Inr False \<Rightarrow> (Inr (Summary results'), st'))))))"

text \<open>
  A sequence of runs on one channel and one store; each run has its own collaborators,
  flags and limit.
\<close>

record run_args =
  run_entity :: entity_outcome
  run_messages :: "tg_message list"
  run_parse :: "nat \<Rightarrow> string \<Rightarrow> string \<Rightarrow> ParsedSignal option"
  run_webhook :: "WebhookClient option"
  run_full_scan :: bool
  run_dry_run :: bool
  run_limit :: "int option"

fun run_sequence :: "libs \<Rightarrow> int \<Rightarrow> store \<Rightarrow> run_args list \<Rightarrow> store" where
  "run_sequence L channel_id st [] = st"
| "run_sequence L channel_id st (a # rest) =
     run_sequence L channel_id
       (snd (run_pipeline (run_entity a) (run_messages a) (run_parse a) L (run_webhook a) st
              channel_id (run_full_scan a) (run_dry_run a) (run_limit a)))
       rest"

section \<open>Sample data\<close>

text \<open>
  Concrete inputs for the examples below: a library in which every call fails, and the
  payload of a purchase disclosure without date and confidence.
\<close>

definition failing_libs :: libs where
  "failing_libs =
     \<lparr>json_loads = (\<lambda>s. Inl JSONDecodeError), re_search_fence = (\<lambda>s. None),
      float_of_str = (\<lambda>s. None), float_of_big_int = (\<lambda>i. None),
      float_add_int = (\<lambda>f i. f)\<rparr>"

definition nvda_payload :: "(string \<times> json) list" where
  "nvda_payload =
     [(''is_signal'', JBool True), (''ticker'', JStr ''nvda''),
      (''politician_name'', JStr ''Smith''), (''transaction_type'', JStr ''buy''),
      (''amount_range'', JStr ''$50K-$100K'')]"

definition nvda_signal :: "string \<Rightarrow> json \<Rightarrow> pyfloat \<Rightarrow> ParsedSignal" where
  "nvda_signal text date conf =
     \<lparr>ticker = ''NVDA'', politician_name = JStr ''Smith'', transaction_type = ''BUY'',
      amount_range = JStr ''$50K-$100K'', signal_date = date, confidence = conf,
      raw_message = text\<rparr>"

text \<open>
  Four webhooks: one answers 200, 409 and 500 in turn, one answers 409 with a body that is
  not JSON, one cannot be reached, and one answers 500 with a JSON body that is not an
  object.
\<close>

definition mixed_webhook :: WebhookClient where
  "mixed_webhook =
     \<lparr>api_key = ''key'',
      post = (\<lambda>i payload.
        if i = 0 then Response 200 (JsonBody (JObj [(''ok'', JBool True)]))
        else if i = 1 then Response 409 (JsonBody (JObj [(''error'', JStr ''Duplicate signal'')]))
        else Response 500 (JsonBody (JObj [(''error'', JStr ''Internal error'')])))\<rparr>"

definition text_conflict_webhook :: WebhookClient where
  "text_conflict_webhook =
     \<lparr>api_key = ''key'',
      post = (\<lambda>i payload. Response 409 (UndecodableBody ''Expecting value: line 1 column 1 (char 0)''))\<rparr>"

definition down_webhook :: WebhookClient where
  "down_webhook = \<lparr>api_key = ''key'', post = (\<lambda>i payload. RequestException ''Connection refused'')\<rparr>"

definition null_body_webhook :: WebhookClient where
  "null_body_webhook = \<lparr>api_key = ''key'', post = (\<lambda>i payload. Response 500 (JsonBody JNull))\<rparr>"

text \<open>
  A channel with three new messages, newest first, one of them without text; a store whose
  watermark for channel 7 is 9, and the same store after a commit of 12; an extraction
  service that is rate limited and one that answers with prose; and an extractor that
  finds a signal in the first message it is given.
\<close>

definition new_messages :: "tg_message list" where
  "new_messages =
     [\<lparr>msg_id = 12, msg_text = Some ''NVDA buy'', msg_date = ''2024-03-01T12:00:00+00:00''\<rparr>,
      \<lparr>msg_id = 11, msg_text = None, msg_date = ''2024-03-01T11:00:00+00:00''\<rparr>,
      \<lparr>msg_id = 10, msg_text = Some ''Market update'', msg_date = ''2024-03-01T10:00:00+00:00''\<rparr>]"

definition store_at :: "int \<Rightarrow> store" where
  "store_at n =
     \<lparr>content = Holds (JObj [(''channels'', JObj [(''7'', JObj [(''last_message_id'', JInt n)])])]),
      writable = True\<rparr>"

text \<open>
  The same store with any decoded value as the watermark of channel 7 (the state file is
  plain JSON and \<^verbatim>\<open>get_last_message_id\<close> returns whatever it holds), and a store
  whose lifetime counter is a string.
\<close>

definition store_holding :: "json \<Rightarrow> store" where
  "store_holding v =
     \<lparr>content = Holds (JObj [(''channels'', JObj [(''7'', JObj [(''last_message_id'', v)])])]),
      writable = True\<rparr>"


definition rate_limited_client :: anthropic_client where
  "rate_limited_client = (\<lambda>prompt. Inl (APIError ''rate limit''))"

definition prose_client :: anthropic_client where
  "prose_client = (\<lambda>prompt. Inr [TextBlock ''Sorry, no JSON today''])"





section \<open>The prompt is never formatted\<close>

lemma ebind_Inl: "ebind (Inl e) f = Inl e"
  by (simp add: ebind_def)


lemma py_format_skip_line:
  assumes "\<forall>c\<in>set l. c \<noteq> CHR ''{'' \<and> c \<noteq> CHR ''}''" and "py_format kw rest = Inl e"
  shows "py_format kw (l @ rest) = Inl e"
  using assms by (induction l) (simp_all add: ebind_Inl)

lemma py_format_skip_in_line:
  assumes "dropWhile (\<lambda>c. c \<noteq> CHR ''{'' \<and> c \<noteq> CHR ''}'') l = r"
    and "py_format kw (r @ rest) = Inl e"
  shows "py_format kw (l @ rest) = Inl e"
proof -
  have "l = takeWhile (\<lambda>c. c \<noteq> CHR ''{'' \<and> c \<noteq> CHR ''}'') l @ r"
    using assms(1) by (metis takeWhile_dropWhile_id)
  moreover have "py_format kw (takeWhile (\<lambda>c. c \<noteq> CHR ''{'' \<and> c \<noteq> CHR ''}'') l @ (r @ rest)) = Inl e"
  proof (rule py_format_skip_line)
    show "\<forall>c\<in>set (takeWhile (\<lambda>c. c \<noteq> CHR ''{'' \<and> c \<noteq> CHR ''}'') l). c \<noteq> CHR ''{'' \<and> c \<noteq> CHR ''}''"
      by (auto dest: set_takeWhileD)
    show "py_format kw (r @ rest) = Inl e"
      by (rule assms(2))
  qed
  ultimately show ?thesis
    by (metis append_assoc)
qed

text \<open>
  The template holds the text \<^verbatim>\<open>{"is_signal": false}\<close> with single braces, so
  the formatter reads a field named \<^verbatim>\<open>"is_signal"\<close>, finds no such argument
  and raises KeyError, whatever the message and the timestamp are.
\<close>

lemma format_prompt_KeyError: "format_prompt m t = Inl (KeyError ''\"is_signal\"'')"
  unfolding format_prompt_def PARSE_PROMPT_def
  apply (rule py_format_skip_line, simp)
  apply (rule py_format_skip_line, simp)
  apply (rule py_format_skip_line, simp)
  apply (rule py_format_skip_line, simp)
  apply (rule py_format_skip_line, simp)
  apply (rule py_format_skip_line, simp)
  apply (rule py_format_skip_line, simp)
  apply (rule py_format_skip_line, simp)
  apply (rule py_format_skip_line, simp)
  apply (rule py_format_skip_line, simp)
  apply (rule py_format_skip_line, simp)
  apply (rule py_format_skip_in_line, simp)
  apply (simp add: parse_field_def in_field_name_def in_format_spec_def is_digit_def)
  done

text \<open>
  The exception is raised inside the \<^verbatim>\<open>try\<close>, before the request is made, and
  the handler of line 128 returns None: as the source stands, \<^verbatim>\<open>parse_message\<close>
  returns None for every message. The properties of the decoding and of the validation are
  therefore stated on \<open>parse_message_call\<close> and \<open>parse_message_validate\<close>, the code
  that runs once a prompt exists.
\<close>

lemma parse_message_None: "parse_message client L message_text timestamp = None"
  by (simp add: parse_message_def parse_message_try_def format_prompt_KeyError ebind_Inl
      except_return_None_def)

section \<open>Validation\<close>

lemma py_get_JObj: "py_get (JObj kvs) key dflt = Inr (dict_get kvs key dflt)"
  by (simp add: py_get_def)

lemma py_upper_Inr: "py_upper v = Inr u \<longleftrightarrow> (\<exists>s. v = JStr s \<and> u = upper s)"
  by (cases v) (auto simp: py_upper_def)

lemma validate_JObj:
  "parse_message_validate L (JObj kvs) m t =
     (if dict_get kvs ''is_signal'' JNull = JBool False then Inr None
      else if \<not> truthy (dict_get kvs ''ticker'' JNull) then Inr None
      else case py_upper (dict_get kvs ''transaction_type'' (JStr [])) of
        Inl e \<Rightarrow> Inl e
      | Inr ttype \<Rightarrow>
          if ttype \<noteq> ''BUY'' \<and> ttype \<noteq> ''SELL'' then Inr None
          else case py_upper (dict_get kvs ''ticker'' JNull) of
            Inl e \<Rightarrow> Inl e
          | Inr tick_up \<Rightarrow>
              (case py_float L (dict_get kvs ''confidence'' (JFloat (Fin (1 / 2)))) of
                 Inl e \<Rightarrow> Inl e
               | Inr c \<Rightarrow>
                   Inr (Some \<lparr>ticker = tick_up,
                     politician_name = dict_get kvs ''politician_name'' JNull,
                     transaction_type = ttype,
                     amount_range = dict_get kvs ''amount_range'' JNull,
                     signal_date =
                       (if \<not> truthy (dict_get kvs ''signal_date'' JNull) then JStr (take 10 t)
                        else dict_get kvs ''signal_date'' JNull),
                     confidence = c, raw_message = take 500 m\<rparr>)))"
  by (simp add: parse_message_validate_def py_get_JObj ebind_def Let_def split: sum.splits)

lemma validate_not_JObj:
  "\<forall>kvs. data \<noteq> JObj kvs \<Longrightarrow> parse_message_validate L data m t = Inl AttributeError"
  by (cases data) (simp_all add: parse_message_validate_def py_get_def ebind_def)

lemma validate_accepts:
  assumes "parse_message_validate L data m t = Inr (Some r)"
  shows "\<exists>kvs s tt.
           data = JObj kvs \<and> dict_get kvs ''is_signal'' JNull \<noteq> JBool False \<and>
           dict_get kvs ''ticker'' JNull = JStr s \<and> s \<noteq> [] \<and>
           dict_get kvs ''transaction_type'' (JStr []) = JStr tt \<and>
           (upper tt = ''BUY'' \<or> upper tt = ''SELL'') \<and>
           py_float L (dict_get kvs ''confidence'' (JFloat (Fin (1 / 2)))) = Inr (confidence r) \<and>
           ticker r = upper s \<and>
           politician_name r = dict_get kvs ''politician_name'' JNull \<and>
           transaction_type r = upper tt \<and>
           amount_range r = dict_get kvs ''amount_range'' JNull \<and>
           signal_date r =
             (if \<not> truthy (dict_get kvs ''signal_date'' JNull) then JStr (take 10 t)
              else dict_get kvs ''signal_date'' JNull) \<and>
           raw_message r = take 500 m"
proof -
  obtain kvs where d: "data = JObj kvs"
    using assms validate_not_JObj [of data L m t]
    by (cases "\<forall>kvs. data \<noteq> JObj kvs") auto
  from assms show ?thesis
    unfolding d validate_JObj
    by (auto simp: py_upper_Inr split: if_splits sum.splits)
qed

lemma upper_char_idem: "upper_char (upper_char c) = upper_char c"
  by (simp add: upper_char_def)

lemma upper_idem: "upper (upper s) = upper s"
  by (simp add: upper_def upper_char_idem)

lemma upper_Nil_iff: "upper s = [] \<longleftrightarrow> s = []"
  by (simp add: upper_def)

lemma nvda_eval:
  "parse_message_validate failing_libs (JObj nvda_payload) m ''2024-03-01T12:00:00+00:00'' =
     Inr (Some (nvda_signal (take 500 m) (JStr ''2024-03-01'') (Fin (1 / 2))))"
  by (simp add: validate_JObj nvda_payload_def nvda_signal_def dict_get_def py_upper_def upper_def
      upper_char_def py_float_def)

text \<open>
  C7. The \<open>raw_message\<close> of an accepted signal is the first 500 characters of the
  message text: a text of more than 500 characters is cut to exactly 500, a shorter one is
  stored unchanged.
\<close>

theorem raw_message_truncation:
  assumes "parse_message_validate L data message_text timestamp = Inr (Some r)"
  shows "raw_message r = take 500 message_text \<and>
         (500 < length message_text \<longrightarrow> length (raw_message r) = 500) \<and>
         (length message_text \<le> 500 \<longrightarrow> raw_message r = message_text)"
  using validate_accepts [OF assms] by auto

theorem raw_message_truncation_witness:
  "parse_message_validate failing_libs (JObj nvda_payload) (replicate 501 (CHR ''x''))
       ''2024-03-01T12:00:00+00:00'' =
     Inr (Some (nvda_signal (replicate 500 (CHR ''x'')) (JStr ''2024-03-01'') (Fin (1 / 2)))) \<and>
   length (replicate 500 (CHR ''x'')) = 500 \<and>
   parse_message_validate failing_libs (JObj nvda_payload) ''NVDA buy''
       ''2024-03-01T12:00:00+00:00'' =
     Inr (Some (nvda_signal ''NVDA buy'' (JStr ''2024-03-01'') (Fin (1 / 2))))"
proof -
  let ?long = "replicate 501 (CHR ''x'')"
  let ?ts = "''2024-03-01T12:00:00+00:00''"
  have e1: "take 500 ?long = replicate 500 (CHR ''x'')"
    by (simp only: take_replicate) simp
  have e2: "take 500 ''NVDA buy'' = ''NVDA buy''"
    by simp
  have long: "parse_message_validate failing_libs (JObj nvda_payload) ?long ?ts =
      Inr (Some (nvda_signal (replicate 500 (CHR ''x'')) (JStr ''2024-03-01'') (Fin (1 / 2))))"
    using nvda_eval [of ?long] by (simp only: e1)
  have short: "parse_message_validate failing_libs (JObj nvda_payload) ''NVDA buy'' ?ts =
      Inr (Some (nvda_signal ''NVDA buy'' (JStr ''2024-03-01'') (Fin (1 / 2))))"
    using nvda_eval [of "''NVDA buy''"] by (simp only: e2)
  have l: "(500::nat) < length ?long"
    by simp
  from raw_message_truncation [OF long] l
  have "length (raw_message (nvda_signal (replicate 500 (CHR ''x'')) (JStr ''2024-03-01'') (Fin (1 / 2)))) = 500"
    by blast
  then have "length (replicate 500 (CHR ''x'')) = 500"
    by (simp only: nvda_signal_def ParsedSignal.simps)
  with long short show ?thesis
    by (intro conjI)
qed

text \<open>
  C8. When the payload has no \<open>signal_date\<close>, or an empty one, the accepted signal's
  \<open>signal_date\<close> is the first 10 characters of the timestamp; a date the payload
  supplies is used unchanged. The test of the source is the truth value, so any false
  value (null, 0, false, an empty list or dict) falls back as the empty string does.
\<close>

theorem signal_date_fallback:
  assumes "parse_message_validate L data message_text timestamp = Inr (Some r)"
  shows "\<exists>kvs. data = JObj kvs \<and>
           (map_of kvs ''signal_date'' = None \<or> map_of kvs ''signal_date'' = Some (JStr []) \<longrightarrow>
              signal_date r = JStr (take 10 timestamp)) \<and>
           (\<forall>v. map_of kvs ''signal_date'' = Some v \<longrightarrow>
              signal_date r = (if truthy v then v else JStr (take 10 timestamp)))"
  using validate_accepts [OF assms] by (auto simp: dict_get_def)

theorem signal_date_fallback_witness:
  "parse_message_validate failing_libs (JObj nvda_payload) ''NVDA buy''
       ''2024-03-01T12:00:00+00:00'' =
     Inr (Some (nvda_signal ''NVDA buy'' (JStr ''2024-03-01'') (Fin (1 / 2)))) \<and>
   map_of nvda_payload ''signal_date'' = None \<and>
   signal_date (nvda_signal ''NVDA buy'' (JStr ''2024-03-01'') (Fin (1 / 2))) =
     JStr (take 10 ''2024-03-01T12:00:00+00:00'') \<and>
   parse_message_validate failing_libs
       (JObj (nvda_payload @ [(''signal_date'', JStr ''2024-02-27'')])) ''NVDA buy''
       ''2024-03-01T12:00:00+00:00'' =
     Inr (Some (nvda_signal ''NVDA buy'' (JStr ''2024-02-27'') (Fin (1 / 2))))"
proof -
  let ?ts = "''2024-03-01T12:00:00+00:00''"
  have absent: "parse_message_validate failing_libs (JObj nvda_payload) ''NVDA buy'' ?ts =
      Inr (Some (nvda_signal ''NVDA buy'' (JStr ''2024-03-01'') (Fin (1 / 2))))"
    using nvda_eval [of "''NVDA buy''"] by simp
  have given: "parse_message_validate failing_libs
      (JObj (nvda_payload @ [(''signal_date'', JStr ''2024-02-27'')])) ''NVDA buy'' ?ts =
      Inr (Some (nvda_signal ''NVDA buy'' (JStr ''2024-02-27'') (Fin (1 / 2))))"
    by (simp add: validate_JObj nvda_payload_def nvda_signal_def dict_get_def py_upper_def
        upper_def upper_char_def py_float_def)
  have none: "map_of nvda_payload ''signal_date'' = None"
    by (simp add: nvda_payload_def)
  from signal_date_fallback [OF absent] none
  have "signal_date (nvda_signal ''NVDA buy'' (JStr ''2024-03-01'') (Fin (1 / 2))) =
      JStr (take 10 ?ts)"
    by auto
  with absent given none show ?thesis
    by (intro conjI)
qed

text \<open>
  C3. A payload that declares \<open>is_signal\<close> false, or whose ticker is missing or empty
  (or any other false value), or whose \<open>transaction_type\<close>, uppercased, is not BUY or
  SELL (or is not a str at all) gives no signal; and every record that is built has a
  non-empty ticker, equal to its own uppercase form, and a \<open>transaction_type\<close> of BUY or
  SELL.
\<close>

theorem validation_completeness:
  "(dict_get kvs ''is_signal'' JNull = JBool False \<or>
    \<not> truthy (dict_get kvs ''ticker'' JNull) \<or>
    (py_upper (dict_get kvs ''transaction_type'' (JStr [])) \<noteq> Inr ''BUY'' \<and>
     py_upper (dict_get kvs ''transaction_type'' (JStr [])) \<noteq> Inr ''SELL'')
    \<longrightarrow> except_return_None (parse_message_validate L (JObj kvs) message_text timestamp) = None) \<and>
   (parse_message_validate L data message_text timestamp = Inr (Some r) \<longrightarrow>
      ticker r \<noteq> [] \<and> upper (ticker r) = ticker r \<and>
      (transaction_type r = ''BUY'' \<or> transaction_type r = ''SELL'') \<and>
      (\<exists>kvs' s. data = JObj kvs' \<and> dict_get kvs' ''ticker'' JNull = JStr s \<and> ticker r = upper s))"
proof (intro conjI impI)
  assume "dict_get kvs ''is_signal'' JNull = JBool False \<or>
    \<not> truthy (dict_get kvs ''ticker'' JNull) \<or>
    (py_upper (dict_get kvs ''transaction_type'' (JStr [])) \<noteq> Inr ''BUY'' \<and>
     py_upper (dict_get kvs ''transaction_type'' (JStr [])) \<noteq> Inr ''SELL'')"
  then show "except_return_None (parse_message_validate L (JObj kvs) message_text timestamp) = None"
    by (auto simp: validate_JObj except_return_None_def split: sum.splits)
next
  assume a: "parse_message_validate L data message_text timestamp = Inr (Some r)"
  from validate_accepts [OF a] obtain kvs' s tt where
    d: "data = JObj kvs'" and t: "dict_get kvs' ''ticker'' JNull = JStr s" and s: "s \<noteq> []" and
    u: "upper tt = ''BUY'' \<or> upper tt = ''SELL''" and r1: "ticker r = upper s" and
    r2: "transaction_type r = upper tt"
    by blast
  from s r1 show "ticker r \<noteq> []"
    by (simp add: upper_Nil_iff)
  from r1 show "upper (ticker r) = ticker r"
    by (simp add: upper_idem)
  from u r2 show "transaction_type r = ''BUY'' \<or> transaction_type r = ''SELL''"
    by simp
  from d t r1 show "\<exists>kvs' s. data = JObj kvs' \<and> dict_get kvs' ''ticker'' JNull = JStr s \<and> ticker r = upper s"
    by blast
qed

theorem validation_completeness_witness:
  "except_return_None (parse_message_validate failing_libs (JObj [(''is_signal'', JBool False)])
       ''Market update: tech stocks rally'' ''2024-03-01T12:00:00+00:00'') = None \<and>
   except_return_None (parse_message_validate failing_libs
       (JObj [(''ticker'', JStr ''NVDA''), (''transaction_type'', JStr ''hold'')])
       ''NVDA'' ''2024-03-01T12:00:00+00:00'') = None \<and>
   parse_message_validate failing_libs (JObj nvda_payload) ''NVDA buy''
       ''2024-03-01T12:00:00+00:00'' =
     Inr (Some (nvda_signal ''NVDA buy'' (JStr ''2024-03-01'') (Fin (1 / 2)))) \<and>
   upper ''NVDA'' = ''NVDA''"
proof -
  let ?ts = "''2024-03-01T12:00:00+00:00''"
  have a: "dict_get [(''is_signal'', JBool False)] ''is_signal'' JNull = JBool False"
    by (simp add: dict_get_def)
  have b: "py_upper (dict_get [(''ticker'', JStr ''NVDA''), (''transaction_type'', JStr ''hold'')]
      ''transaction_type'' (JStr [])) \<noteq> Inr ''BUY'' \<and>
    py_upper (dict_get [(''ticker'', JStr ''NVDA''), (''transaction_type'', JStr ''hold'')]
      ''transaction_type'' (JStr [])) \<noteq> Inr ''SELL''"
    by (simp add: dict_get_def py_upper_def upper_def upper_char_def)
  have c: "parse_message_validate failing_libs (JObj nvda_payload) ''NVDA buy'' ?ts =
      Inr (Some (nvda_signal ''NVDA buy'' (JStr ''2024-03-01'') (Fin (1 / 2))))"
    using nvda_eval [of "''NVDA buy''"] by simp
  from validation_completeness [of "[(''is_signal'', JBool False)]" failing_libs
      "''Market update: tech stocks rally''" ?ts] a
  have 1: "except_return_None (parse_message_validate failing_libs (JObj [(''is_signal'', JBool False)])
       ''Market update: tech stocks rally'' ?ts) = None"
    by blast
  from validation_completeness [of "[(''ticker'', JStr ''NVDA''), (''transaction_type'', JStr ''hold'')]"
      failing_libs "''NVDA''" ?ts] b
  have 2: "except_return_None (parse_message_validate failing_libs
       (JObj [(''ticker'', JStr ''NVDA''), (''transaction_type'', JStr ''hold'')]) ''NVDA'' ?ts) = None"
    by blast
  from validation_completeness [where L = failing_libs and data = "JObj nvda_payload" and
      message_text = "''NVDA buy''" and timestamp = ?ts and
      r = "nvda_signal ''NVDA buy'' (JStr ''2024-03-01'') (Fin (1 / 2))"] c
  have "upper (ticker (nvda_signal ''NVDA buy'' (JStr ''2024-03-01'') (Fin (1 / 2)))) =
      ticker (nvda_signal ''NVDA buy'' (JStr ''2024-03-01'') (Fin (1 / 2)))"
    by blast
  then have 3: "upper ''NVDA'' = ''NVDA''"
    by (simp add: nvda_signal_def)
  from 1 2 c 3 show ?thesis
    by (intro conjI)
qed

text \<open>
  Line 121, \<^verbatim>\<open>float(data.get("confidence", 0.5))\<close>: the confidence of a record the
  validation builds is \<^verbatim>\<open>float\<close> of the payload's value, and 0.5 when the payload
  has none; the value is not compared with any bound, and a payload whose confidence
  cannot be converted gives no record.
\<close>

lemma confidence_coercion:
  "(parse_message_validate L (JObj kvs) message_text timestamp = Inr (Some r) \<longrightarrow>
      (map_of kvs ''confidence'' = None \<longrightarrow> confidence r = Fin (1 / 2)) \<and>
      (\<forall>c. map_of kvs ''confidence'' = Some c \<longrightarrow> py_float L c = Inr (confidence r)) \<and>
      (\<forall>q. map_of kvs ''confidence'' = Some (JFloat q) \<longrightarrow>
         confidence r = q \<and> (in_unit_interval (confidence r) \<longleftrightarrow> in_unit_interval q))) \<and>
   (\<forall>c e. map_of kvs ''confidence'' = Some c \<and> py_float L c = Inl e \<longrightarrow>
      except_return_None (parse_message_validate L (JObj kvs) message_text timestamp) = None)"
proof (intro conjI impI allI)
  assume a: "parse_message_validate L (JObj kvs) message_text timestamp = Inr (Some r)"
  from validate_accepts [OF a]
  have f: "py_float L (dict_get kvs ''confidence'' (JFloat (Fin (1 / 2)))) = Inr (confidence r)"
    by auto
  {
    assume "map_of kvs ''confidence'' = None"
    with f show "confidence r = Fin (1 / 2)"
      by (simp add: dict_get_def py_float_def)
  }
  {
    fix c assume "map_of kvs ''confidence'' = Some c"
    with f show "py_float L c = Inr (confidence r)"
      by (simp add: dict_get_def)
  }
  {
    fix q assume "map_of kvs ''confidence'' = Some (JFloat q)"
    with f show q: "confidence r = q"
      by (simp add: dict_get_def py_float_def)
    then show "in_unit_interval (confidence r) \<longleftrightarrow> in_unit_interval q"
      by simp
  }
next
  fix c e
  assume "map_of kvs ''confidence'' = Some c \<and> py_float L c = Inl e"
  then show "except_return_None (parse_message_validate L (JObj kvs) message_text timestamp) = None"
    by (auto simp: validate_JObj except_return_None_def dict_get_def split: sum.splits)
qed




text \<open>
  Were the prompt formatted, the validation would still accept a confidence of 1.5 as it
  is, and reject a message whose confidence is null.
\<close>

lemma confidence_not_checked:
  "parse_message_validate failing_libs
       (JObj (nvda_payload @ [(''confidence'', JFloat (Fin (3 / 2)))])) ''NVDA buy''
       ''2024-03-01T12:00:00+00:00'' =
     Inr (Some (nvda_signal ''NVDA buy'' (JStr ''2024-03-01'') (Fin (3 / 2)))) \<and>
   \<not> in_unit_interval (confidence (nvda_signal ''NVDA buy'' (JStr ''2024-03-01'') (Fin (3 / 2)))) \<and>
   parse_message_validate failing_libs
       (JObj (nvda_payload @ [(''confidence'', JNull)])) ''NVDA buy''
       ''2024-03-01T12:00:00+00:00'' = Inl TypeError"
  by (simp add: validate_JObj nvda_payload_def nvda_signal_def dict_get_def py_upper_def
      upper_def upper_char_def py_float_def in_unit_interval_def)

section \<open>Delivery\<close>

lemma send_signals_loop_counts:
  "send_signals_loop wc i signals results = Inr r \<Longrightarrow>
   total r = total results \<and>
   success r + duplicates r + failed r =
     success results + duplicates results + failed results + int (length signals) \<and>
   int (length (errors r)) - failed r = int (length (errors results)) - failed results"
proof (induction signals arbitrary: i results)
  case Nil
  then show ?case by simp
next
  case (Cons signal signals)
  show ?case
  proof (cases "succeeded (send_signal wc i signal)")
    case True
    with Cons.prems have "send_signals_loop wc (Suc i) signals
        (results\<lparr>success := success results + 1\<rparr>) = Inr r"
      by simp
    from Cons.IH [OF this] show ?thesis by simp
  next
    case False
    show ?thesis
    proof (cases "status_code (send_signal wc i signal) = 409")
      case True
      with False Cons.prems have "send_signals_loop wc (Suc i) signals
          (results\<lparr>duplicates := duplicates results + 1\<rparr>) = Inr r"
        by simp
      from Cons.IH [OF this] show ?thesis by simp
    next
      case n: False
      with False Cons.prems obtain msg where
        "send_signals_loop wc (Suc i) signals
          (results\<lparr>failed := failed results + 1,
                   errors := errors results @ [(ticker signal, msg)]\<rparr>) = Inr r"
        by (auto simp: ebind_def split: sum.splits)
      from Cons.IH [OF this] show ?thesis by simp
    qed
  qed
qed

text \<open>
  C10. The record returned by \<^verbatim>\<open>send_signals_batch\<close> has success + duplicates +
  failed = total = the number of signals, and one entry in \<open>errors\<close> per failed signal.
\<close>

theorem batch_count_conservation:
  assumes "send_signals_batch wc signals = Inr r"
  shows "success r + duplicates r + failed r = total r \<and> total r = int (length signals) \<and>
         int (length (errors r)) = failed r"
  using send_signals_loop_counts [OF assms [unfolded send_signals_batch_def]] by simp

lemma mixed_batch:
  "send_signals_batch mixed_webhook
     [nvda_signal ''a'' (JStr ''2024-03-01'') (Fin (1 / 2)),
      nvda_signal ''b'' (JStr ''2024-03-01'') (Fin (1 / 2)),
      nvda_signal ''c'' (JStr ''2024-03-01'') (Fin (1 / 2))] =
   Inr \<lparr>total = 3, success = 1, failed = 1, duplicates = 1,
        errors = [(''NVDA'', JStr ''Internal error'')]\<rparr>"
  by (simp add: send_signals_batch_def send_signal_def mixed_webhook_def error_msg_def py_get_def
      dict_get_def ebind_def nvda_signal_def)

theorem batch_count_conservation_witness:
  "send_signals_batch mixed_webhook
     [nvda_signal ''a'' (JStr ''2024-03-01'') (Fin (1 / 2)),
      nvda_signal ''b'' (JStr ''2024-03-01'') (Fin (1 / 2)),
      nvda_signal ''c'' (JStr ''2024-03-01'') (Fin (1 / 2))] =
   Inr \<lparr>total = 3, success = 1, failed = 1, duplicates = 1,
        errors = [(''NVDA'', JStr ''Internal error'')]\<rparr> \<and>
   (1::int) + 1 + 1 = 3 \<and> int (length [(''NVDA'', JStr ''Internal error'')]) = 1"
  using batch_count_conservation [OF mixed_batch] mixed_batch by simp

text \<open>
  C5. A 409 response should be counted as a duplicate and never as a failure. Here the
  webhook answers 409 with a body that is not JSON: \<^verbatim>\<open>response.json()\<close> raises
  inside the \<^verbatim>\<open>try\<close> of \<^verbatim>\<open>send_signal\<close>, the handler reports status 0,
  and the batch counts a failure with the decoder's message as its reason.
\<close>

theorem text_conflict_counted_as_failure:
  "send_signal text_conflict_webhook 0 (nvda_signal ''a'' (JStr ''2024-03-01'') (Fin (1 / 2))) =
     Errored 0 False ''Expecting value: line 1 column 1 (char 0)'' \<and>
   send_signals_batch text_conflict_webhook [nvda_signal ''a'' (JStr ''2024-03-01'') (Fin (1 / 2))] =
     Inr \<lparr>total = 1, success = 0, failed = 1, duplicates = 0,
          errors = [(''NVDA'', JStr ''Expecting value: line 1 column 1 (char 0)'')]\<rparr>"
  by (simp add: send_signals_batch_def send_signal_def text_conflict_webhook_def error_msg_def
      nvda_signal_def ebind_def)

text \<open>
  With a body that is empty or decodes as JSON the classification follows the status: 200
  is a success, 409 a duplicate, anything else a failure whose reason is the \<open>error\<close>
  entry of an object body, or \<open>Unknown error\<close>; a transport exception is a failure with
  its text as the reason.
\<close>

lemma delivery_classification:
  "(post wc i (signal_payload (api_key wc) signal) = Response code body \<and>
      (body = NoContent \<or> (\<exists>v. body = JsonBody v)) \<longrightarrow>
        (code = 200 \<longrightarrow>
           send_signals_loop wc i (signal # signals) results =
           send_signals_loop wc (Suc i) signals (results\<lparr>success := success results + 1\<rparr>)) \<and>
        (code = 409 \<longrightarrow>
           send_signals_loop wc i (signal # signals) results =
           send_signals_loop wc (Suc i) signals (results\<lparr>duplicates := duplicates results + 1\<rparr>)) \<and>
        (code \<noteq> 200 \<and> code \<noteq> 409 \<and> body = NoContent \<longrightarrow>
           send_signals_loop wc i (signal # signals) results =
           send_signals_loop wc (Suc i) signals
             (results\<lparr>failed := failed results + 1,
                      errors := errors results @ [(ticker signal, JStr ''Unknown error'')]\<rparr>)) \<and>
        (\<forall>kvs. code \<noteq> 200 \<and> code \<noteq> 409 \<and> body = JsonBody (JObj kvs) \<longrightarrow>
           send_signals_loop wc i (signal # signals) results =
           send_signals_loop wc (Suc i) signals
             (results\<lparr>failed := failed results + 1,
                      errors := errors results @
                        [(ticker signal, dict_get kvs ''error'' (JStr ''Unknown error''))]\<rparr>))) \<and>
   (post wc i (signal_payload (api_key wc) signal) = RequestException e \<longrightarrow>
      send_signals_loop wc i (signal # signals) results =
      send_signals_loop wc (Suc i) signals
        (results\<lparr>failed := failed results + 1,
                 errors := errors results @
                   [(ticker signal, JStr (if e = [] then ''Unknown error'' else e))]\<rparr>))"
  by (auto simp: send_signal_def error_msg_def py_get_def ebind_def dict_get_def)

text \<open>
  A failure response whose JSON body is not an object is not counted at all: the
  \<^verbatim>\<open>get\<close> on the body raises AttributeError out of the batch.
\<close>

lemma null_body_raises:
  "send_signals_batch null_body_webhook [nvda_signal ''a'' (JStr ''2024-03-01'') (Fin (1 / 2))] =
     Inl AttributeError"
  by (simp add: send_signals_batch_def send_signal_def null_body_webhook_def error_msg_def
      py_get_def ebind_def)

section \<open>The watermark store\<close>

lemma get_last_message_id_Holds_JObj:
  "content st = Holds (JObj kvs) \<Longrightarrow>
   get_last_message_id st channel_id =
     ebind (py_get (dict_get kvs ''channels'' (JObj [])) (py_str channel_id) (JObj [])) (\<lambda>entry.
       py_get entry ''last_message_id'' (JInt 0))"
  by (simp add: get_last_message_id_def load_state_def py_get_def ebind_def)

lemma get_last_message_id_empty:
  "content st = Missing \<or> content st = Unreadable \<or> content st = NotJson \<Longrightarrow>
   get_last_message_id st channel_id = Inr (JInt 0)"
  by (auto simp: get_last_message_id_def load_state_def py_get_def ebind_def dict_get_def)

text \<open>
  C9. A corrupt store should give the default 0 instead of an exception. A state file that
  is not UTF-8 (or holds an integer literal beyond the digit limit) makes
  \<^verbatim>\<open>json.load\<close> raise an exception that \<^verbatim>\<open>load_state\<close> does not catch,
  and a file that holds JSON of another shape (a list; an object whose \<open>channels\<close> is
  null) makes the chained \<^verbatim>\<open>get\<close> raise AttributeError.
\<close>

theorem corrupt_store_raises:
  "load_state \<lparr>content = LoadRaises UnicodeDecodeError, writable = True\<rparr> = Inl UnicodeDecodeError \<and>
   get_last_message_id \<lparr>content = LoadRaises UnicodeDecodeError, writable = True\<rparr> 7 =
     Inl UnicodeDecodeError \<and>
   get_last_message_id \<lparr>content = LoadRaises ValueError, writable = True\<rparr> 7 = Inl ValueError \<and>
   get_last_message_id \<lparr>content = Holds (JArr []), writable = True\<rparr> 7 = Inl AttributeError \<and>
   get_last_message_id \<lparr>content = Holds (JObj [(''channels'', JNull)]), writable = True\<rparr> 7 =
     Inl AttributeError \<and>
   get_last_message_id \<lparr>content = NotJson, writable = True\<rparr> 7 = Inr (JInt 0)"
  by (simp add: get_last_message_id_def load_state_def py_get_def ebind_def dict_get_def)

text \<open>
  The cases in which \<^verbatim>\<open>get_last_message_id\<close> returns the default, and those in
  which it raises.
\<close>

lemma get_last_message_id_default:
  "(content st = Missing \<or> content st = Unreadable \<or> content st = NotJson \<longrightarrow>
      get_last_message_id st channel_id = Inr (JInt 0)) \<and>
   (content st = Holds (JObj kvs) \<and> map_of kvs ''channels'' = None \<longrightarrow>
      get_last_message_id st channel_id = Inr (JInt 0)) \<and>
   (content st = Holds (JObj kvs) \<and> map_of kvs ''channels'' = Some (JObj channels) \<and>
    map_of channels (py_str channel_id) = None \<longrightarrow>
      get_last_message_id st channel_id = Inr (JInt 0)) \<and>
   (content st = Holds (JObj kvs) \<and> map_of kvs ''channels'' = Some (JObj channels) \<and>
    map_of channels (py_str channel_id) = Some (JObj entry) \<longrightarrow>
      get_last_message_id st channel_id = Inr (dict_get entry ''last_message_id'' (JInt 0))) \<and>
   (content st = LoadRaises e \<longrightarrow> get_last_message_id st channel_id = Inl e) \<and>
   (content st = Holds v \<and> (\<forall>kvs. v \<noteq> JObj kvs) \<longrightarrow>
      get_last_message_id st channel_id = Inl AttributeError) \<and>
   (content st = Holds (JObj kvs) \<and> map_of kvs ''channels'' = Some c \<and> (\<forall>channels. c \<noteq> JObj channels) \<longrightarrow>
      get_last_message_id st channel_id = Inl AttributeError) \<and>
   (content st = Holds (JObj kvs) \<and> map_of kvs ''channels'' = Some (JObj channels) \<and>
    map_of channels (py_str channel_id) = Some x \<and> (\<forall>entry. x \<noteq> JObj entry) \<longrightarrow>
      get_last_message_id st channel_id = Inl AttributeError)"
proof (intro conjI impI)
  assume "content st = Holds v \<and> (\<forall>kvs. v \<noteq> JObj kvs)"
  then show "get_last_message_id st channel_id = Inl AttributeError"
    by (cases v) (simp_all add: get_last_message_id_def load_state_def py_get_def ebind_def)
next
  assume "content st = Holds (JObj kvs) \<and> map_of kvs ''channels'' = Some c \<and>
    (\<forall>channels. c \<noteq> JObj channels)"
  then show "get_last_message_id st channel_id = Inl AttributeError"
    by (cases c) (simp_all add: get_last_message_id_Holds_JObj py_get_def ebind_def dict_get_def)
next
  assume "content st = Holds (JObj kvs) \<and> map_of kvs ''channels'' = Some (JObj channels) \<and>
    map_of channels (py_str channel_id) = Some x \<and> (\<forall>entry. x \<noteq> JObj entry)"
  then show "get_last_message_id st channel_id = Inl AttributeError"
    by (cases x) (simp_all add: get_last_message_id_Holds_JObj py_get_def ebind_def dict_get_def)
qed (auto simp: get_last_message_id_empty get_last_message_id_Holds_JObj py_get_def ebind_def
    dict_get_def get_last_message_id_def load_state_def)

section \<open>The run and the watermark\<close>

lemma ebind_Inr: "ebind (Inr v) f = f v"
  by (simp add: ebind_def)

lemma ebind_eq_Inr: "ebind m f = Inr r \<longleftrightarrow> (\<exists>v. m = Inr v \<and> f v = Inr r)"
  by (cases m) (simp_all add: ebind_def)

lemma py_get_eq_Inr: "py_get d k dflt = Inr v \<longleftrightarrow> (\<exists>kvs. d = JObj kvs \<and> v = dict_get kvs k dflt)"
  by (cases d) (auto simp: py_get_def)

lemma py_gt_JInt: "py_gt (JInt b) (JInt a) = Inr (a < b)"
  by (simp add: py_gt_def num_val_def)

lemma py_max_JInt: "py_max (JInt a) (JInt b) = Inr (JInt (max a b))"
  by (simp add: py_max_def py_gt_JInt ebind_Inr max_def)

lemma py_max_numeric:
  "py_max a b = Inr m \<Longrightarrow> num_val a \<noteq> None \<and> num_val b \<noteq> None \<and> (m = a \<or> m = b)"
  by (auto simp: py_max_def py_gt_def ebind_eq_Inr split: option.splits)


lemma collect_messages_keeps_numeric:
  "collect_messages limit ms count acc v = Inr (out, mx) \<Longrightarrow> num_val v \<noteq> None \<Longrightarrow>
   num_val mx \<noteq> None"
proof (induction ms arbitrary: count acc v)
  case Nil
  then show ?case by simp
next
  case (Cons m ms)
  show ?case
  proof (cases "msg_text m")
    case None
    with Cons.prems have "collect_messages limit ms count acc v = Inr (out, mx)"
      by simp
    from Cons.IH [OF this Cons.prems(2)] show ?thesis .
  next
    case (Some body)
    show ?thesis
    proof (cases "body = []")
      case True
      with Some Cons.prems have "collect_messages limit ms count acc v = Inr (out, mx)"
        by simp
      from Cons.IH [OF this Cons.prems(2)] show ?thesis .
    next
      case False
      show ?thesis
      proof (cases "case limit of None \<Rightarrow> False | Some l \<Rightarrow> l \<noteq> 0 \<and> count + 1 > l")
        case True
        with Some False Cons.prems show ?thesis
          by simp
      next
        case stop: False
        with Some False Cons.prems obtain v' where
          m: "py_max v (JInt (msg_id m)) = Inr v'" and
          c: "collect_messages limit ms (count + 1) (acc @ [(msg_id m, body, msg_date m)]) v' =
             Inr (out, mx)"
          by (auto simp: ebind_eq_Inr)
        from py_max_numeric [OF m] Cons.prems(2) have "num_val v' \<noteq> None"
          by auto
        from Cons.IH [OF c this] show ?thesis .
      qed
    qed
  qed
qed

lemma collect_messages_start_numeric:
  "collect_messages limit ms count acc v = Inr (out, mx) \<Longrightarrow> out \<noteq> acc \<Longrightarrow> num_val v \<noteq> None"
proof (induction ms arbitrary: count acc)
  case Nil
  then show ?case by simp
next
  case (Cons m ms)
  show ?case
  proof (cases "msg_text m")
    case None
    with Cons.prems have "collect_messages limit ms count acc v = Inr (out, mx)"
      by simp
    from Cons.IH [OF this Cons.prems(2)] show ?thesis .
  next
    case (Some body)
    show ?thesis
    proof (cases "body = []")
      case True
      with Some Cons.prems have "collect_messages limit ms count acc v = Inr (out, mx)"
        by simp
      from Cons.IH [OF this Cons.prems(2)] show ?thesis .
    next
      case False
      show ?thesis
      proof (cases "case limit of None \<Rightarrow> False | Some l \<Rightarrow> l \<noteq> 0 \<and> count + 1 > l")
        case True
        with Some False Cons.prems show ?thesis
          by simp
      next
        case stop: False
        with Some False Cons.prems obtain v' where "py_max v (JInt (msg_id m)) = Inr v'"
          by (auto simp: ebind_eq_Inr)
        from py_max_numeric [OF this] show ?thesis
          by simp
      qed
    qed
  qed
qed

text \<open>
  When at least one message is collected, the starting id and the final maximum are
  numbers: the comparison of line 177 never meets two strs or two lists.
\<close>

lemma collect_messages_numeric:
  assumes "collect_messages limit ms 0 [] v = Inr (out, mx)" and "out \<noteq> []"
  shows "num_val v \<noteq> None \<and> num_val mx \<noteq> None"
proof -
  from collect_messages_start_numeric [OF assms] have "num_val v \<noteq> None" .
  with collect_messages_keeps_numeric [OF assms(1)] show ?thesis
    by simp
qed

lemma collect_messages_int:
  "\<exists>new. collect_messages limit ms count acc (JInt a) =
     Inr (acc @ new, JInt (fold max (map fst new) a))"
proof (induction ms arbitrary: count acc a)
  case Nil
  have "collect_messages limit [] count acc (JInt a) = Inr (acc @ [], JInt (fold max (map fst []) a))"
    by simp
  then show ?case by blast
next
  case (Cons m ms)
  show ?case
  proof (cases "msg_text m")
    case None
    then show ?thesis
      using Cons.IH [of count acc a] by simp
  next
    case (Some body)
    show ?thesis
    proof (cases "body = []")
      case True
      with Some show ?thesis
        using Cons.IH [of count acc a] by simp
    next
      case False
      show ?thesis
      proof (cases "case limit of None \<Rightarrow> False | Some l \<Rightarrow> l \<noteq> 0 \<and> count + 1 > l")
        case True
        with Some False have "collect_messages limit (m # ms) count acc (JInt a) =
            Inr (acc @ [], JInt (fold max (map fst []) a))"
          by simp
        then show ?thesis by blast
      next
        case stop: False
        from Cons.IH [of "count + 1" "acc @ [(msg_id m, body, msg_date m)]" "max a (msg_id m)"]
        obtain new where
          "collect_messages limit ms (count + 1) (acc @ [(msg_id m, body, msg_date m)])
             (JInt (max a (msg_id m))) =
           Inr ((acc @ [(msg_id m, body, msg_date m)]) @ new,
                JInt (fold max (map fst new) (max a (msg_id m))))"
          by blast
        with Some False stop
        have "collect_messages limit (m # ms) count acc (JInt a) =
            Inr (acc @ ((msg_id m, body, msg_date m) # new),
                 JInt (fold max (map fst ((msg_id m, body, msg_date m) # new)) a))"
          by (simp add: py_max_JInt ebind_Inr max.commute)
        then show ?thesis by blast
      qed
    qed
  qed
qed

lemma fold_max_ge: "(mx::int) \<le> fold max xs mx"
proof (induction xs arbitrary: mx)
  case Nil
  then show ?case by simp
next
  case (Cons x xs)
  have "mx \<le> max x mx" by simp
  also have "\<dots> \<le> fold max xs (max x mx)" by (rule Cons.IH)
  finally show ?case by simp
qed

lemma collect_messages_max:
  assumes "collect_messages limit ms 0 [] (JInt a) = Inr (out, v)"
  shows "\<exists>mx. v = JInt mx \<and> a \<le> mx \<and> mx = Max (set (a # map fst out)) \<and> (out = [] \<longrightarrow> mx = a)"
proof -
  from collect_messages_int [of limit ms 0 "[]" a] assms
  have v: "v = JInt (fold max (map fst out) a)"
    by auto
  have "fold max (map fst out) a = Max (set (a # map fst out))"
    by (simp only: Max.set_eq_fold)
  with v show ?thesis
    by (auto simp: fold_max_ge)
qed

lemma load_state_save_state:
  "load_state (save_state st v) = (if writable st then Inr v else load_state st)"
  by (simp add: load_state_def save_state_def)

lemma writable_save_state: "writable (save_state st v) = writable st"
  by (simp add: save_state_def)

lemma save_state_not_writable: "\<not> writable st \<Longrightarrow> save_state st v = st"
  by (simp add: save_state_def)

lemma get_last_message_id_load:
  "get_last_message_id st channel_id =
     ebind (load_state st) (\<lambda>state.
     ebind (py_get state ''channels'' (JObj [])) (\<lambda>channels.
     ebind (py_get channels (py_str channel_id) (JObj [])) (\<lambda>entry.
     py_get entry ''last_message_id'' (JInt 0))))"
  by (simp add: get_last_message_id_def)

lemma get_last_message_id_cong:
  "load_state st' = load_state st \<Longrightarrow> get_last_message_id st' c = get_last_message_id st c"
  by (simp add: get_last_message_id_def)

lemma dict_get_update_same: "dict_get (AList.update k v kvs) k d = v"
  by (simp add: dict_get_def update_conv')

lemma dict_get_update_other: "k' \<noteq> k \<Longrightarrow> dict_get (AList.update k v kvs) k' d = dict_get kvs k' d"
  by (simp add: dict_get_def update_conv')

lemma set_after_get:
  assumes "get_last_message_id st c = Inr v"
  shows "\<exists>st'. set_last_message_id st c m = Inr st' \<and> writable st' = writable st \<and>
           (writable st \<longrightarrow> get_last_message_id st' c = Inr m) \<and>
           (\<not> writable st \<longrightarrow> st' = st)"
proof -
  from assms obtain kvs channels entry where
    l: "load_state st = Inr (JObj kvs)" and
    ch: "dict_get kvs ''channels'' (JObj []) = JObj channels" and
    en: "dict_get channels (py_str c) (JObj []) = JObj entry"
    unfolding get_last_message_id_load ebind_eq_Inr py_get_eq_Inr by auto
  let ?new = "JObj (AList.update ''channels''
      (JObj (AList.update (py_str c)
        (JObj (AList.update ''last_message_id'' m entry)) channels)) kvs)"
  have s: "set_last_message_id st c m = Inr (save_state st ?new)"
    by (simp add: set_last_message_id_def l ch en ebind_Inr)
  have "writable st \<longrightarrow> get_last_message_id (save_state st ?new) c = Inr m"
    by (simp add: get_last_message_id_load load_state_save_state ebind_Inr py_get_def
        dict_get_update_same)
  with s show ?thesis
    by (simp add: writable_save_state save_state_not_writable)
qed

lemma increment_preserves_get:
  assumes "increment_processed_count L st n = Inr st'"
  shows "get_last_message_id st' c = get_last_message_id st c \<and> writable st' = writable st"
proof -
  from assms obtain kvs new where
    l: "load_state st = Inr (JObj kvs)" and
    s: "st' = save_state st (JObj (AList.update ''total_processed'' new kvs))"
    unfolding increment_processed_count_def ebind_eq_Inr py_get_eq_Inr by auto
  show ?thesis
  proof (cases "writable st")
    case True
    then have "get_last_message_id st' c = get_last_message_id st c"
      unfolding s get_last_message_id_load load_state_save_state l
      by (simp add: ebind_Inr py_get_def dict_get_update_other)
    then show ?thesis by (simp add: s writable_save_state)
  next
    case False
    then show ?thesis by (simp add: s save_state_not_writable)
  qed
qed

lemma deliver_preserves_get:
  assumes "deliver L wc dry signals results st = Inr (results', st')"
  shows "get_last_message_id st' c = get_last_message_id st c \<and> writable st' = writable st \<and>
         (dry \<or> wc = None \<or> signals = [] \<longrightarrow> st' = st \<and> results' = results)"
  using assms
  by (auto simp: deliver_def ebind_eq_Inr split: option.splits if_splits
      dest: increment_preserves_get)

lemma deliver_dry:
  "dry \<or> wc = None \<Longrightarrow> deliver L wc dry signals results st = Inr (results, st)"
  by (auto simp: deliver_def split: option.splits)

lemma run_pipeline_full_scan:
  "get_last_message_id (snd (run_pipeline entity messages parse L wc st c True dry limit)) c =
     get_last_message_id st c"
  by (auto simp: run_pipeline_def Let_def split: entity_outcome.splits prod.splits sum.splits
      dest: deliver_preserves_get)


lemma run_pipeline_incremental:
  assumes g: "get_last_message_id st c = Inr (JInt a)"
    and col: "collect_messages limit messages 0 [] (JInt a) = Inr (out, JInt mx)"
  shows "(get_last_message_id (snd (run_pipeline entity messages parse L wc st c False dry limit)) c =
            Inr (JInt a) \<or>
          a < mx \<and>
          get_last_message_id (snd (run_pipeline entity messages parse L wc st c False dry limit)) c =
            Inr (JInt mx)) \<and>
         ((\<exists>s. fst (run_pipeline entity messages parse L wc st c False dry limit) = Inr (Summary s)) \<and>
          writable st \<and> a < mx \<longrightarrow>
          get_last_message_id (snd (run_pipeline entity messages parse L wc st c False dry limit)) c =
            Inr (JInt mx))"
proof -
  let ?run = "run_pipeline entity messages parse L wc st c False dry limit"
  show ?thesis
  proof (cases entity)
    case Entity
    show ?thesis
    proof (cases "out = []")
      case True
      from collect_messages_max [OF col] True have "mx = a"
        by simp
      with True Entity col g show ?thesis
        by (simp add: run_pipeline_def)
    next
      case False
      let ?signals = "extract_signals parse 0 out"
      let ?results = "\<lparr>total_messages = int (length out),
          signals_found = int (length ?signals), signals_sent = 0,
          duplicates_skipped = 0, error_count = 0\<rparr>"
      show ?thesis
      proof (cases "deliver L wc dry ?signals ?results st")
        case (Inl e)
        with False Entity col g show ?thesis
          by (simp add: run_pipeline_def)
      next
        case (Inr p)
        obtain results' st1 where p: "p = (results', st1)"
          by (cases p)
        from deliver_preserves_get [OF Inr [unfolded p]]
        have g1: "get_last_message_id st1 c = Inr (JInt a)" and w1: "writable st1 = writable st"
          using g by simp_all
        show ?thesis
        proof (cases "a < mx")
          case True
          from set_after_get [OF g1, of "JInt mx"] obtain st2 where
            st2: "set_last_message_id st1 c (JInt mx) = Inr st2" and
            w: "writable st1 \<longrightarrow> get_last_message_id st2 c = Inr (JInt mx)" and
            nw: "\<not> writable st1 \<longrightarrow> st2 = st1"
            by blast
          have r: "?run = (Inr (Summary results'), st2)"
            using True False Entity col Inr p st2 g by (simp add: run_pipeline_def py_gt_JInt)
          show ?thesis
            unfolding r using w nw g1 w1 True by (cases "writable st") auto
        next
          case n: False
          have r: "?run = (Inr (Summary results'), st1)"
            using n False Entity col Inr p g by (simp add: run_pipeline_def py_gt_JInt)
          show ?thesis
            unfolding r using g1 n by simp
        qed
      qed
    qed
  qed (use g in \<open>simp_all add: run_pipeline_def\<close>)
qed

text \<open>The sample run, step by step.\<close>

lemma py_str_7: "py_str 7 = ''7''"
  by (simp add: py_str_def digits.simps)

lemma store_at_holding: "store_at n = store_holding (JInt n)"
  by (simp add: store_at_def store_holding_def)

lemma get_store_holding: "get_last_message_id (store_holding v) 7 = Inr v"
  by (simp add: get_last_message_id_def store_holding_def load_state_def py_get_def dict_get_def
      ebind_def py_str_7)

lemma set_store_holding: "set_last_message_id (store_holding v) 7 m = Inr (store_holding m)"
  by (simp add: set_last_message_id_def store_holding_def load_state_def save_state_def
      dict_get_def ebind_def py_str_7)

lemma get_store_at: "get_last_message_id (store_at n) 7 = Inr (JInt n)"
  by (simp add: store_at_holding get_store_holding)

lemma set_store_at: "set_last_message_id (store_at n) 7 (JInt m) = Inr (store_at m)"
  by (simp add: store_at_holding set_store_holding)

lemma collect_new_messages:
  "collect_messages None new_messages 0 [] (JInt 9) =
     Inr ([(12, ''NVDA buy'', ''2024-03-01T12:00:00+00:00''),
           (10, ''Market update'', ''2024-03-01T10:00:00+00:00'')], JInt 12)"
  by (simp add: new_messages_def py_max_JInt ebind_Inr)





lemma run_sequence_monotonic:
  "get_last_message_id st c = Inr (JInt a) \<Longrightarrow>
   \<exists>b. get_last_message_id (run_sequence L c st runs) c = Inr (JInt b) \<and> a \<le> b"
proof (induction runs arbitrary: st a)
  case Nil
  then show ?case by simp
next
  case (Cons r runs)
  let ?st1 = "snd (run_pipeline (run_entity r) (run_messages r) (run_parse r) L (run_webhook r) st c
      (run_full_scan r) (run_dry_run r) (run_limit r))"
  have "\<exists>a1. get_last_message_id ?st1 c = Inr (JInt a1) \<and> a \<le> a1"
  proof (cases "run_full_scan r")
    case True
    then show ?thesis
      using Cons.prems by (simp add: run_pipeline_full_scan)
  next
    case False
    obtain out mx where
      col: "collect_messages (run_limit r) (run_messages r) 0 [] (JInt a) = Inr (out, JInt mx)"
      using collect_messages_int [of "run_limit r" "run_messages r" 0 "[]" a] by auto
    from run_pipeline_incremental [OF Cons.prems col, of "run_entity r" "run_parse r" L
        "run_webhook r" "run_dry_run r"] False
    show ?thesis by auto
  qed
  then obtain a1 where g1: "get_last_message_id ?st1 c = Inr (JInt a1)" and le: "a \<le> a1"
    by blast
  from Cons.IH [OF g1] obtain b where
    "get_last_message_id (run_sequence L c ?st1 runs) c = Inr (JInt b)" "a1 \<le> b"
    by blast
  with le show ?case by auto
qed

text \<open>
  A run changes the stored \<open>last_message_id\<close> of the channel only when it is not a full
  scan and the greatest message id it collected exceeds the id it read at its start, and
  then to that greatest id; so the stored id never decreases, over one run or over any
  sequence of runs, and a full scan leaves it alone. When an incremental run returns its
  summary with a greater id collected (and the file can be written), the commit has
  happened.
\<close>

lemma watermark_monotonic:
  assumes "get_last_message_id st c = Inr (JInt a)"
  shows "(\<exists>out mx.
            collect_messages limit messages 0 [] (JInt a) = Inr (out, JInt mx) \<and>
            mx = Max (set (a # map fst out)) \<and>
            (\<exists>b. get_last_message_id
                    (snd (run_pipeline entity messages parse L wc st c full_scan dry_run limit)) c =
                    Inr (JInt b) \<and>
                  a \<le> b \<and>
                  (full_scan \<longrightarrow> b = a) \<and>
                  (b \<noteq> a \<longrightarrow> \<not> full_scan \<and> a < mx \<and> b = mx) \<and>
                  (\<not> full_scan \<and> writable st \<and> a < mx \<and>
                   (\<exists>s. fst (run_pipeline entity messages parse L wc st c full_scan dry_run limit) =
                          Inr (Summary s)) \<longrightarrow>
                     b = mx))) \<and>
         (\<exists>b. get_last_message_id (run_sequence L c st runs) c = Inr (JInt b) \<and> a \<le> b)"
proof (intro conjI)
  show "\<exists>b. get_last_message_id (run_sequence L c st runs) c = Inr (JInt b) \<and> a \<le> b"
    using assms by (rule run_sequence_monotonic)
  obtain out v where col0: "collect_messages limit messages 0 [] (JInt a) = Inr (out, v)"
    using collect_messages_int [of limit messages 0 "[]" a] by auto
  from collect_messages_max [OF col0] obtain mx where
    v: "v = JInt mx" and le: "a \<le> mx" and mx: "mx = Max (set (a # map fst out))"
    by blast
  note col = col0 [unfolded v]
  have "\<exists>b. get_last_message_id
          (snd (run_pipeline entity messages parse L wc st c full_scan dry_run limit)) c =
          Inr (JInt b) \<and>
        a \<le> b \<and>
        (full_scan \<longrightarrow> b = a) \<and>
        (b \<noteq> a \<longrightarrow> \<not> full_scan \<and> a < mx \<and> b = mx) \<and>
        (\<not> full_scan \<and> writable st \<and> a < mx \<and>
         (\<exists>s. fst (run_pipeline entity messages parse L wc st c full_scan dry_run limit) =
                Inr (Summary s)) \<longrightarrow>
           b = mx)"
  proof (cases full_scan)
    case True
    then show ?thesis
      using assms by (simp add: run_pipeline_full_scan)
  next
    case False
    from run_pipeline_incremental [OF assms col, of entity parse L wc dry_run] False
    show ?thesis
      by auto
  qed
  with col mx show "\<exists>out mx.
      collect_messages limit messages 0 [] (JInt a) = Inr (out, JInt mx) \<and>
      mx = Max (set (a # map fst out)) \<and>
      (\<exists>b. get_last_message_id
              (snd (run_pipeline entity messages parse L wc st c full_scan dry_run limit)) c =
              Inr (JInt b) \<and>
            a \<le> b \<and>
            (full_scan \<longrightarrow> b = a) \<and>
            (b \<noteq> a \<longrightarrow> \<not> full_scan \<and> a < mx \<and> b = mx) \<and>
            (\<not> full_scan \<and> writable st \<and> a < mx \<and>
             (\<exists>s. fst (run_pipeline entity messages parse L wc st c full_scan dry_run limit) =
                    Inr (Summary s)) \<longrightarrow>
               b = mx))"
    by blast
qed




section \<open>Dry runs\<close>




lemma run_pipeline_dry_run:
  "run_pipeline entity messages parse L wc st c full_scan True limit =
     (case (if full_scan then Inr (JInt 0) else get_last_message_id st c) of
        Inl e \<Rightarrow> (Inl e, st)
      | Inr min_id \<Rightarrow>
          (case entity of
             ChannelPrivateError \<Rightarrow> (Inr NoAccess, st)
           | EntityRaises e \<Rightarrow> (Inl e, st)
           | Entity \<Rightarrow>
               (case collect_messages limit messages 0 [] min_id of
                  Inl e \<Rightarrow> (Inl e, st)
                | Inr (out, mx) \<Rightarrow>
                    if out = [] then
                      (Inr (Summary \<lparr>total_messages = 0, signals_found = 0, signals_sent = 0,
                                      duplicates_skipped = 0, error_count = 0\<rparr>), st)
                    else
                      (let results = \<lparr>total_messages = int (length out),
                                       signals_found = int (length (extract_signals parse 0 out)),
                                       signals_sent = 0, duplicates_skipped = 0, error_count = 0\<rparr>
                       in case (if full_scan then Inr False else py_gt mx min_id) of
                            Inl e \<Rightarrow> (Inl e, st)
                          | Inr True \<Rightarrow>
                              (case set_last_message_id st c mx of
                                 Inl e \<Rightarrow> (Inl e, st)
                               | Inr st'' \<Rightarrow> (Inr (Summary results), st''))
                          | Inr False \<Rightarrow> (Inr (Summary results), st)))))"
  by (simp add: run_pipeline_def deliver_dry Let_def split: sum.splits entity_outcome.splits
      prod.splits)





section \<open>Failure isolation\<close>

lemma extract_signals_map_filter:
  "extract_signals parse i msgs =
     List.map_filter (\<lambda>(j, mid, body, timestamp). parse j body timestamp)
       (zip [i..<i + length msgs] msgs)"
proof (induction msgs arbitrary: i)
  case Nil
  then show ?case by (simp add: List.map_filter_simps)
next
  case (Cons m msgs)
  obtain mid body timestamp where m: "m = (mid, body, timestamp)"
    by (cases m)
  have len: "i + length (x # msgs) = Suc (i + length msgs)" for x :: "int \<times> string \<times> string"
    by simp
  have u: "[i..<Suc (i + length msgs)] = i # [Suc i..<Suc (i + length msgs)]"
    by (rule upt_conv_Cons) simp
  have ih: "extract_signals parse (Suc i) msgs =
      List.map_filter (\<lambda>(j, mid, body, timestamp). parse j body timestamp)
        (zip [Suc i..<Suc (i + length msgs)] msgs)"
    using Cons.IH [of "Suc i"] by (simp del: upt_Suc)
  show ?case
  proof (cases "parse i body timestamp")
    case None
    then show ?thesis
      unfolding len u m
      by (simp only: extract_signals.simps zip_Cons_Cons List.map_filter_simps prod.case
          option.case ih)
  next
    case (Some signal)
    then show ?thesis
      unfolding len u m
      by (simp only: extract_signals.simps zip_Cons_Cons List.map_filter_simps prod.case
          option.case ih)
  qed
qed

lemma run_pipeline_returns:
  assumes "full_scan \<or> (\<exists>a. get_last_message_id st c = Inr (JInt a))"
    and "\<forall>e. entity \<noteq> EntityRaises e"
    and "dry_run \<or> wc = None"
  shows "\<exists>res. fst (run_pipeline entity messages parse L wc st c full_scan dry_run limit) = Inr res"
proof -
  obtain a where s: "(if full_scan then Inr (JInt 0) else get_last_message_id st c) = Inr (JInt a)"
    and g: "\<not> full_scan \<longrightarrow> get_last_message_id st c = Inr (JInt a)"
    using assms(1) by (cases full_scan) auto
  obtain out mx where col: "collect_messages limit messages 0 [] (JInt a) = Inr (out, JInt mx)"
    using collect_messages_int [of limit messages 0 "[]" a] by auto
  have d: "deliver L wc dry_run signals results st = Inr (results, st)" for signals results
    using assms(3) by (rule deliver_dry)
  show ?thesis
  proof (cases "\<not> full_scan \<and> a < mx")
    case True
    with g have "get_last_message_id st c = Inr (JInt a)"
      by simp
    from set_after_get [OF this, of "JInt mx"] obtain st' where
      "set_last_message_id st c (JInt mx) = Inr st'"
      by blast
    with True assms(2) show ?thesis
      unfolding run_pipeline_def s
      by (cases entity) (simp_all add: col d py_gt_JInt Let_def)
  next
    case False
    with assms(2) show ?thesis
      unfolding run_pipeline_def s
      by (cases entity) (auto simp add: col d py_gt_JInt Let_def)
  qed
qed

text \<open>
  C6. Inside \<^verbatim>\<open>parse_message\<close> every exception of the body ends in None: an
  error of the request, a reply that cannot be decoded and a payload that fails the
  validation each give no signal. The extraction loop visits every collected message and
  keeps the signals in order, and a run without delivery returns its result whatever the
  extractor did with each message; only the read of the watermark and the resolution of
  the channel can end it early.
\<close>

theorem per_message_fault_isolation:
  "(parse_message_try client L message_text timestamp = Inl e \<longrightarrow>
      parse_message client L message_text timestamp = None) \<and>
   (client prompt = Inl e \<longrightarrow>
      except_return_None (parse_message_call client L prompt message_text timestamp) = None) \<and>
   (client prompt = Inr reply \<and>
    (parse_message_decode L reply = Inr None \<or> parse_message_decode L reply = Inl e) \<longrightarrow>
      except_return_None (parse_message_call client L prompt message_text timestamp) = None) \<and>
   (client prompt = Inr reply \<and> parse_message_decode L reply = Inr (Some data) \<and>
    (parse_message_validate L data message_text timestamp = Inr None \<or>
     parse_message_validate L data message_text timestamp = Inl e) \<longrightarrow>
      except_return_None (parse_message_call client L prompt message_text timestamp) = None) \<and>
   extract_signals parse i msgs =
     List.map_filter (\<lambda>(j, mid, body, timestamp). parse j body timestamp)
       (zip [i..<i + length msgs] msgs) \<and>
   ((full_scan \<or> (\<exists>a. get_last_message_id st c = Inr (JInt a))) \<and>
    (\<forall>e. entity \<noteq> EntityRaises e) \<and> (dry_run \<or> wc = None) \<longrightarrow>
      (\<exists>res. fst (run_pipeline entity messages parse L wc st c full_scan dry_run limit) = Inr res))"
proof (intro conjI)
  show "parse_message_try client L message_text timestamp = Inl e \<longrightarrow>
      parse_message client L message_text timestamp = None"
    by (simp add: parse_message_def except_return_None_def)
  show "client prompt = Inl e \<longrightarrow>
      except_return_None (parse_message_call client L prompt message_text timestamp) = None"
    by (simp add: parse_message_call_def ebind_Inl except_return_None_def)
  show "client prompt = Inr reply \<and>
    (parse_message_decode L reply = Inr None \<or> parse_message_decode L reply = Inl e) \<longrightarrow>
      except_return_None (parse_message_call client L prompt message_text timestamp) = None"
    by (auto simp: parse_message_call_def ebind_Inl ebind_Inr except_return_None_def)
  show "client prompt = Inr reply \<and> parse_message_decode L reply = Inr (Some data) \<and>
    (parse_message_validate L data message_text timestamp = Inr None \<or>
     parse_message_validate L data message_text timestamp = Inl e) \<longrightarrow>
      except_return_None (parse_message_call client L prompt message_text timestamp) = None"
    by (auto simp: parse_message_call_def ebind_Inr except_return_None_def)
  show "extract_signals parse i msgs =
     List.map_filter (\<lambda>(j, mid, body, timestamp). parse j body timestamp)
       (zip [i..<i + length msgs] msgs)"
    by (rule extract_signals_map_filter)
  show "(full_scan \<or> (\<exists>a. get_last_message_id st c = Inr (JInt a))) \<and>
    (\<forall>e. entity \<noteq> EntityRaises e) \<and> (dry_run \<or> wc = None) \<longrightarrow>
      (\<exists>res. fst (run_pipeline entity messages parse L wc st c full_scan dry_run limit) = Inr res)"
    using run_pipeline_returns by blast
qed

theorem per_message_fault_isolation_witness:
  "parse_message_try rate_limited_client failing_libs ''NVDA buy'' ''2024-03-01T12:00:00+00:00'' =
     Inl (KeyError ''\"is_signal\"'') \<and>
   parse_message rate_limited_client failing_libs ''NVDA buy'' ''2024-03-01T12:00:00+00:00'' = None \<and>
   rate_limited_client ''prompt'' = Inl (APIError ''rate limit'') \<and>
   except_return_None (parse_message_call rate_limited_client failing_libs ''prompt'' ''NVDA buy''
     ''2024-03-01T12:00:00+00:00'') = None \<and>
   prose_client ''prompt'' = Inr [TextBlock ''Sorry, no JSON today''] \<and>
   parse_message_decode failing_libs [TextBlock ''Sorry, no JSON today''] = Inr None \<and>
   except_return_None (parse_message_call prose_client failing_libs ''prompt'' ''NVDA buy''
     ''2024-03-01T12:00:00+00:00'') = None \<and>
   fst (run_pipeline Entity new_messages (\<lambda>i. parse_message rate_limited_client failing_libs)
          failing_libs None (store_at 9) 7 False True None) =
     Inr (Summary \<lparr>total_messages = 2, signals_found = 0, signals_sent = 0,
                    duplicates_skipped = 0, error_count = 0\<rparr>)"
proof -
  let ?ts = "''2024-03-01T12:00:00+00:00''"
  let ?parse = "\<lambda>i::nat. parse_message rate_limited_client failing_libs"
  have t: "parse_message_try rate_limited_client failing_libs ''NVDA buy'' ?ts =
      Inl (KeyError ''\"is_signal\"'')"
    by (simp add: parse_message_try_def format_prompt_KeyError ebind_Inl)
  have c1: "rate_limited_client ''prompt'' = Inl (APIError ''rate limit'')"
    by (simp add: rate_limited_client_def)
  have c2: "prose_client ''prompt'' = Inr [TextBlock ''Sorry, no JSON today'']"
    by (simp add: prose_client_def)
  have d: "parse_message_decode failing_libs [TextBlock ''Sorry, no JSON today''] = Inr None"
    by (simp add: parse_message_decode_def failing_libs_def)
  have g: "get_last_message_id (store_at 9) 7 = Inr (JInt 9)"
    by (rule get_store_at)
  from per_message_fault_isolation [where client = rate_limited_client and L = failing_libs and
      message_text = "''NVDA buy''" and timestamp = ?ts and e = "KeyError ''\"is_signal\"''"] t
  have 1: "parse_message rate_limited_client failing_libs ''NVDA buy'' ?ts = None"
    by blast
  from per_message_fault_isolation [where client = rate_limited_client and L = failing_libs and
      prompt = "''prompt''" and message_text = "''NVDA buy''" and timestamp = ?ts and
      e = "APIError ''rate limit''"] c1
  have 2: "except_return_None (parse_message_call rate_limited_client failing_libs ''prompt''
      ''NVDA buy'' ?ts) = None"
    by blast
  from per_message_fault_isolation [where client = prose_client and L = failing_libs and
      prompt = "''prompt''" and message_text = "''NVDA buy''" and timestamp = ?ts and
      reply = "[TextBlock ''Sorry, no JSON today'']"] c2 d
  have 3: "except_return_None (parse_message_call prose_client failing_libs ''prompt''
      ''NVDA buy'' ?ts) = None"
    by blast
  from per_message_fault_isolation [where st = "store_at 9" and c = 7 and entity = Entity and
      dry_run = True and wc = None and full_scan = False and messages = new_messages and
      parse = ?parse and L = failing_libs and limit = None] g
  have "\<exists>res. fst (run_pipeline Entity new_messages ?parse failing_libs None (store_at 9) 7
      False True None) = Inr res"
    by blast
  then have 4: "fst (run_pipeline Entity new_messages ?parse failing_libs None (store_at 9) 7
      False True None) =
      Inr (Summary \<lparr>total_messages = 2, signals_found = 0, signals_sent = 0,
                     duplicates_skipped = 0, error_count = 0\<rparr>)"
    by (simp add: run_pipeline_dry_run get_store_at collect_new_messages parse_message_None
        py_gt_JInt set_store_at)
  from t 1 c1 2 c2 d 3 4 show ?thesis
    by (intro conjI)
qed

end
